theory Spec2Isabelle
  imports Main "HOL-Library.Word"
begin

unbundle bit_operations_syntax

section \<open>Go library functions used by the sources\<close>

text \<open>
  The index-range and NodeId code is written with a handful of functions of the Go
  packages \<open>strings\<close> and \<open>strconv\<close>. They are modelled on \<open>string\<close> (a list of
  bytes), for the one-byte separators the sources pass.
\<close>

text \<open>\<open>strings.Index(s, sep)\<close>: position of the first \<open>sep\<close>; \<open>None\<close> stands for -1.\<close>

fun Index :: "string \<Rightarrow> char \<Rightarrow> nat option" where
  "Index [] c = None"
| "Index (x # xs) c = (if x = c then Some 0 else map_option Suc (Index xs c))"

text \<open>\<open>strings.HasPrefix(s, prefix)\<close>.\<close>

definition HasPrefix :: "string \<Rightarrow> string \<Rightarrow> bool" where
  "HasPrefix s p = (take (length p) s = p)"

text \<open>\<open>strings.Split(s, sep)\<close>: the pieces between separators; never an empty list.\<close>

fun Split :: "string \<Rightarrow> char \<Rightarrow> string list" where
  "Split [] c = [[]]"
| "Split (x # xs) c =
     (if x = c then [] # Split xs c
      else (case Split xs c of [] \<Rightarrow> [[x]] | r # rs \<Rightarrow> (x # r) # rs))"

definition isDigit :: "char \<Rightarrow> bool" where
  "isDigit c = (48 \<le> (of_char c :: nat) \<and> (of_char c :: nat) \<le> 57)"

definition digitVal :: "char \<Rightarrow> nat" where
  "digitVal c = of_char c - 48"

text \<open>The decimal value of a digit string, most significant digit first.\<close>

fun digitsVal :: "nat \<Rightarrow> string \<Rightarrow> nat" where
  "digitsVal acc [] = acc"
| "digitsVal acc (c # cs) = digitsVal (acc * 10 + digitVal c) cs"

text \<open>
  \<open>strconv.ParseUint(s, 10, bitSize)\<close>: a non-empty string of decimal digits whose value
  fits in \<open>bitSize\<close> bits. Every error (syntax or range) is \<open>None\<close>: the callers only test
  \<open>err != nil\<close>.
\<close>

definition ParseUint :: "string \<Rightarrow> nat \<Rightarrow> nat option" where
  "ParseUint s bitSize =
     (if s = [] \<or> \<not> list_all isDigit s then None
      else if digitsVal 0 s < 2 ^ bitSize then Some (digitsVal 0 s) else None)"

text \<open>
  \<open>strconv.ParseInt(s, 10, bitSize)\<close>: an optional sign, then the digits; the magnitude
  is checked against the cutoff \<open>2 ^ (bitSize - 1)\<close>.
\<close>

definition ParseInt :: "string \<Rightarrow> nat \<Rightarrow> int option" where
  "ParseInt s bitSize =
     (case s of
        [] \<Rightarrow> None
      | c # cs \<Rightarrow>
          (let neg = (c = CHR ''-'');
               ds = (if c = CHR ''+'' \<or> c = CHR ''-'' then cs else s);
               un = digitsVal 0 ds;
               cutoff = 2 ^ (bitSize - 1)
           in if ds = [] \<or> \<not> list_all isDigit ds then None
              else if \<not> neg \<and> cutoff \<le> un then None
              else if neg \<and> cutoff < un then None
              else Some (if neg then - int un else int un)))"

section \<open>Status codes\<close>

text \<open>
  The status codes the modelled functions return, by name. \<open>OtherStatus\<close> is any other
  32-bit code, as a DataValue may carry.
\<close>

datatype status_code =
    Good
  | BadIndexRangeInvalid
  | BadIndexRangeNoData
  | BadTypeMismatch
  | BadOutOfRange
  | BadNotReadable
  | BadNotWritable
  | BadUserAccessDenied
  | BadNodeIDUnknown
  | BadAttributeIDInvalid
  | BadDataEncodingInvalid
  | BadFilterNotAllowed
  | OtherStatus nat

text \<open>
  Modelled from the spec: \<open>StatusCode.IsBad\<close> is declared outside the available sources.
  \<open>Good\<close> is not bad, every \<open>Bad...\<close> constant is, and another code is bad when its
  severity bit (bit 31) is set.
\<close>

fun IsBad :: "status_code \<Rightarrow> bool" where
  "IsBad Good = False"
| "IsBad (OtherStatus n) = (2 ^ 31 \<le> n mod 2 ^ 32)"
| "IsBad _ = True"

section \<open>Index ranges: parseBounds\<close>

text \<open>
  \<open>parseBounds(s, length)\<close> returns \<open>(lo, hi, status)\<close>. The Go code computes in
  \<open>int64\<close>; every value it handles is bounded by a 32-bit index or by \<open>length\<close>, so
  \<open>int\<close> is exact.
\<close>

definition parseBounds_finish :: "int \<Rightarrow> int \<Rightarrow> int \<Rightarrow> int \<times> int \<times> status_code" where
  "parseBounds_finish lo hi len =
     (if lo < 0 then (-1, -1, BadIndexRangeInvalid)
      else if len \<le> lo then (-1, -1, BadIndexRangeNoData)
      else (let hi1 = (if len \<le> hi then len - 1 else hi);
                hi2 = (if hi1 = -1 then lo else hi1)
            in (lo, hi2 + 1, Good)))"

definition parseBounds :: "string \<Rightarrow> int \<Rightarrow> int \<times> int \<times> status_code" where
  "parseBounds s len =
     (if len = 0 then (-1, -1, BadIndexRangeNoData)
      else if s = [] then (0, len, Good)
      else (case Index s CHR '':'' of
              Some index \<Rightarrow>
                (case ParseInt (take index s) 32 of
                   None \<Rightarrow> (-1, -1, BadIndexRangeInvalid)
                 | Some lo \<Rightarrow>
                     (case ParseInt (drop (index + 1) s) 32 of
                        None \<Rightarrow> (-1, -1, BadIndexRangeInvalid)
                      | Some hi \<Rightarrow>
                          if hi < 0 then (-1, -1, BadIndexRangeInvalid)
                          else if hi \<le> lo then (-1, -1, BadIndexRangeInvalid)
                          else parseBounds_finish lo hi len))
            | None \<Rightarrow>
                (case ParseInt s 32 of
                   None \<Rightarrow> (-1, -1, BadIndexRangeInvalid)
                 | Some lo \<Rightarrow> parseBounds_finish lo (-1) len)))"

section \<open>Node identifiers\<close>

text \<open>
  \<open>fmt.Sprintf("%d", n)\<close> for an unsigned number: its decimal digits, without sign or
  leading zeros.
\<close>

definition digitChar :: "nat \<Rightarrow> char" where
  "digitChar d = char_of (48 + d)"

fun showNat :: "nat \<Rightarrow> string" where
  "showNat n = (if n < 10 then [digitChar n] else showNat (n div 10) @ [digitChar (n mod 10)])"

declare showNat.simps [simp del]

type_synonym uuid = "128 word"
type_synonym byte = "8 word"

text \<open>
  The packages \<open>github.com/google/uuid\<close> and \<open>encoding/base64\<close> are not part of the
  sources. Their printing and parsing functions are a parameter of the NodeId functions.
\<close>

record extlib =
  uuid_String :: "uuid \<Rightarrow> string"
  uuid_Parse :: "string \<Rightarrow> uuid option"
  base64_EncodeToString :: "byte list \<Rightarrow> string"
  base64_DecodeString :: "string \<Rightarrow> byte list option"

datatype IDType = IDTypeNumeric | IDTypeString | IDTypeGUID | IDTypeOpaque

text \<open>
  The four NodeId structs, each with its namespace index and identifier. The \<open>IDType\<close>
  field of a struct is fixed by its constructor (\<open>NewNodeIDNumeric\<close>, ...) and is read
  back from the variant. The \<open>NodeID\<close> interface may also be \<open>nil\<close>: a value of type
  \<open>NodeID option\<close>.
\<close>

datatype NodeID =
    NodeIDNumeric "16 word" "32 word"
  | NodeIDString "16 word" string
  | NodeIDGUID "16 word" uuid
  | NodeIDOpaque "16 word" "byte list"

fun GetIDType :: "NodeID \<Rightarrow> IDType" where
  "GetIDType (NodeIDNumeric ns i) = IDTypeNumeric"
| "GetIDType (NodeIDString ns s) = IDTypeString"
| "GetIDType (NodeIDGUID ns g) = IDTypeGUID"
| "GetIDType (NodeIDOpaque ns b) = IDTypeOpaque"

fun GetNamespaceIndex :: "NodeID \<Rightarrow> 16 word" where
  "GetNamespaceIndex (NodeIDNumeric ns i) = ns"
| "GetNamespaceIndex (NodeIDString ns s) = ns"
| "GetNamespaceIndex (NodeIDGUID ns g) = ns"
| "GetNamespaceIndex (NodeIDOpaque ns b) = ns"

text \<open>The \<open>String\<close> methods: \<open>i=85\<close>, \<open>ns=2;s=Demo\<close>, \<open>ns=2;g=...\<close>, \<open>ns=2;b=...\<close>.\<close>

fun NodeID_String :: "extlib \<Rightarrow> NodeID \<Rightarrow> string" where
  "NodeID_String L (NodeIDNumeric ns i) =
     (if ns = 0 then ''i='' @ showNat (unat i)
      else ''ns='' @ showNat (unat ns) @ '';i='' @ showNat (unat i))"
| "NodeID_String L (NodeIDString ns s) =
     (if ns = 0 then ''s='' @ s
      else ''ns='' @ showNat (unat ns) @ '';s='' @ s)"
| "NodeID_String L (NodeIDGUID ns g) =
     (if ns = 0 then ''g='' @ uuid_String L g
      else ''ns='' @ showNat (unat ns) @ '';g='' @ uuid_String L g)"
| "NodeID_String L (NodeIDOpaque ns b) =
     (if ns = 0 then ''b='' @ base64_EncodeToString L b
      else ''ns='' @ showNat (unat ns) @ '';b='' @ base64_EncodeToString L b)"

text \<open>
  The second half of \<open>ParseNodeIDString\<close>: the switch on the prefix of what follows the
  namespace part. \<open>None\<close> is the \<open>nil\<close> NodeID.
\<close>

definition ParseNodeIDString_id :: "extlib \<Rightarrow> nat \<Rightarrow> string \<Rightarrow> NodeID option" where
  "ParseNodeIDString_id L ns s =
     (if HasPrefix s ''i='' then
        (case ParseUint (drop 2 s) 32 of
           None \<Rightarrow> None
         | Some i \<Rightarrow> if i = 0 \<and> ns = 0 then None
                     else Some (NodeIDNumeric (of_nat ns) (of_nat i)))
      else if HasPrefix s ''s='' then Some (NodeIDString (of_nat ns) (drop 2 s))
      else if HasPrefix s ''g='' then
        (case uuid_Parse L (drop 2 s) of
           None \<Rightarrow> None
         | Some g \<Rightarrow> Some (NodeIDGUID (of_nat ns) g))
      else if HasPrefix s ''b='' then
        (case base64_DecodeString L (drop 2 s) of
           None \<Rightarrow> None
         | Some b \<Rightarrow> Some (NodeIDOpaque (of_nat ns) b))
      else None)"

definition ParseNodeIDString :: "extlib \<Rightarrow> string \<Rightarrow> NodeID option" where
  "ParseNodeIDString L s =
     (if HasPrefix s ''ns='' then
        (case Index s CHR '';'' of
           None \<Rightarrow> None
         | Some pos \<Rightarrow>
             (case ParseUint (take (pos - 3) (drop 3 s)) 16 of
                None \<Rightarrow> None
              | Some ns \<Rightarrow> ParseNodeIDString_id L ns (drop (pos + 1) s)))
      else ParseNodeIDString_id L 0 s)"

text \<open>
  \<open>ParseNodeID(v interface{})\<close> dispatches on the dynamic type of \<open>v\<close>; for a string it
  is \<open>ParseNodeIDString\<close>. Only this case is called from the code below.
\<close>

definition ParseNodeID :: "extlib \<Rightarrow> string \<Rightarrow> NodeID option" where
  "ParseNodeID L s = ParseNodeIDString L s"

text \<open>
  A small instance of the library parameter, for evaluating the NodeId functions on
  examples: a UUID prints as a decimal number and a byte string as its bytes. It is not
  Go's library; it only has the round-trip laws that the theorems ask of a library.
\<close>

definition decimal_extlib :: extlib where
  "decimal_extlib =
     \<lparr>uuid_String = (\<lambda>g. showNat (unat g)),
      uuid_Parse = (\<lambda>s. case ParseUint s 128 of None \<Rightarrow> None | Some n \<Rightarrow> Some (of_nat n)),
      base64_EncodeToString = map (\<lambda>w. char_of (unat w)),
      base64_DecodeString = (\<lambda>s. Some (map (\<lambda>c. of_nat (of_char c)) s))\<rparr>"

section \<open>Expanded node identifiers\<close>

record ExpandedNodeID =
  IdType :: IDType
  ServerIndex :: "32 word"
  NamespaceURI :: string
  NodeID :: "NodeID option"

definition NilExpandedNodeID :: ExpandedNodeID where
  "NilExpandedNodeID =
     \<lparr>IdType = IDTypeNumeric, ServerIndex = 0, NamespaceURI = [], NodeID = None\<rparr>"

text \<open>
  A Go run-time panic. A method call on a \<open>nil\<close> interface value is a nil pointer
  dereference; a failed type assertion \<open>x.(T)\<close> is an interface conversion panic; an
  index beyond the length of a slice is an index out of range.
\<close>

datatype panic = NilPointerDereference | InterfaceConversion | IndexOutOfRange

text \<open>
  The third part of \<open>ParseExpandedNodeID\<close>: \<open>nodeId := ParseNodeID(s)\<close>, then the struct
  literal, whose first field is \<open>nodeId.GetIDType()\<close>: a method call on the interface
  value, which panics when \<open>nodeId\<close> is \<open>nil\<close>.
\<close>

definition ParseExpandedNodeID_id ::
    "extlib \<Rightarrow> nat \<Rightarrow> string \<Rightarrow> string \<Rightarrow> panic + ExpandedNodeID" where
  "ParseExpandedNodeID_id L svr nsu s =
     (case ParseNodeID L s of
        None \<Rightarrow> Inl NilPointerDereference
      | Some nodeId \<Rightarrow>
          Inr \<lparr>IdType = GetIDType nodeId, ServerIndex = of_nat svr,
               NamespaceURI = nsu, NodeID = Some nodeId\<rparr>)"

definition ParseExpandedNodeID_nsu ::
    "extlib \<Rightarrow> nat \<Rightarrow> string \<Rightarrow> panic + ExpandedNodeID" where
  "ParseExpandedNodeID_nsu L svr s =
     (if HasPrefix s ''nsu='' then
        (case Index s CHR '';'' of
           None \<Rightarrow> Inr NilExpandedNodeID
         | Some pos \<Rightarrow>
             ParseExpandedNodeID_id L svr (take (pos - 4) (drop 4 s)) (drop (pos + 1) s))
      else ParseExpandedNodeID_id L svr [] s)"

definition ParseExpandedNodeID :: "extlib \<Rightarrow> string \<Rightarrow> panic + ExpandedNodeID" where
  "ParseExpandedNodeID L s =
     (if HasPrefix s ''svr='' then
        (case Index s CHR '';'' of
           None \<Rightarrow> Inr NilExpandedNodeID
         | Some pos \<Rightarrow>
             (case ParseUint (take (pos - 4) (drop 4 s)) 32 of
                None \<Rightarrow> Inr NilExpandedNodeID
              | Some svr \<Rightarrow> ParseExpandedNodeID_nsu L svr (drop (pos + 1) s)))
      else ParseExpandedNodeID_nsu L 0 s)"

section \<open>Variants and data values\<close>

text \<open>The \<open>VariantType\<close> constants of the \<open>ua\<close> package, in the order of their \<open>iota\<close>.\<close>

datatype VariantType =
    VariantTypeNull | VariantTypeBoolean | VariantTypeSByte | VariantTypeByte
  | VariantTypeInt16 | VariantTypeUInt16 | VariantTypeInt32 | VariantTypeUInt32
  | VariantTypeInt64 | VariantTypeUInt64 | VariantTypeFloat | VariantTypeDouble
  | VariantTypeString | VariantTypeDateTime | VariantTypeGUID | VariantTypeByteString
  | VariantTypeXMLElement | VariantTypeNodeID | VariantTypeExpandedNodeID
  | VariantTypeStatusCode | VariantTypeQualifiedName | VariantTypeLocalizedText
  | VariantTypeExtensionObject | VariantTypeDataValue | VariantTypeVariant
  | VariantTypeDiagnosticInfo

text \<open>
  A \<open>Variant\<close> is a Go \<open>interface{}\<close>: a dynamic type with a payload, or \<open>nil\<close>. The
  type switches of the server distinguish \<open>string\<close>, \<open>ByteString\<close>, their slices, and
  for each of the element types below the scalar and the slice. \<open>gotype\<close> names these
  element types by their Go type (\<open>Guint8\<close> is \<open>uint8\<close>, that is \<open>byte\<close>; \<open>GTime\<close> is
  \<open>time.Time\<close>; \<open>GUUID\<close> is \<open>uuid.UUID\<close>; the rest are types of the \<open>ua\<close> package).
\<close>

datatype gotype =
    Gbool | Gint8 | Guint8 | Gint16 | Guint16 | Gint32 | Guint32 | Gint64 | Guint64
  | Gfloat32 | Gfloat64 | GTime | GUUID | GXMLElement | GNodeID | GExpandedNodeID
  | GStatusCode | GQualifiedName | GLocalizedText | GExtensionObject | GDataValue
  | GVariant | GDiagnosticInfo

text \<open>
  An element (a byte, a rune, a number, a struct) is represented by a natural number that
  encodes it: the functions modelled here move elements and count them and never look
  inside one, except for the UTF-8 length of a rune. A Go \<open>string\<close> value is represented
  by its runes, \<open>[]rune(s)\<close>; this covers the valid UTF-8 strings, for which
  \<open>string([]rune(s)) = s\<close>.
\<close>

type_synonym atom = nat

datatype variant =
    VNil
  | VString "atom list"
  | VByteString "atom list"
  | VScalar gotype atom
  | VStrings "atom list list"
  | VByteStrings "atom list list"
  | VArray gotype "atom list"
  | VOther

text \<open>\<open>len(s)\<close> of a Go string counts bytes: the UTF-8 length of each rune.\<close>

definition utf8len :: "atom \<Rightarrow> nat" where
  "utf8len r = (if r < 128 then 1 else if r < 2048 then 2 else if r < 65536 then 3 else 4)"

definition len_string :: "atom list \<Rightarrow> nat" where
  "len_string s = sum_list (map utf8len s)"

text \<open>\<open>time.Time\<close> as a number of ticks; 0 is the zero time \<open>time.Time{}\<close>.\<close>

type_synonym time = nat

record DataValue =
  Value :: variant
  StatusCode :: status_code
  SourceTimestamp :: time
  SourcePicoseconds :: nat
  ServerTimestamp :: time
  ServerPicoseconds :: nat

definition NewDataValue ::
    "variant \<Rightarrow> status_code \<Rightarrow> time \<Rightarrow> nat \<Rightarrow> time \<Rightarrow> nat \<Rightarrow> DataValue" where
  "NewDataValue value status sourceTimestamp sourcePicoseconds serverTimestamp serverPicoseconds =
     \<lparr>Value = value, StatusCode = status, SourceTimestamp = sourceTimestamp,
      SourcePicoseconds = sourcePicoseconds, ServerTimestamp = serverTimestamp,
      ServerPicoseconds = serverPicoseconds\<rparr>"

definition NilDataValue :: DataValue where
  "NilDataValue = NewDataValue VNil Good 0 0 0 0"

section \<open>Index ranges: readRange and writeRange\<close>

text \<open>
  Go's \<open>xs[i:j]\<close> copied into a fresh slice, and a copy of \<open>v1\<close> with \<open>v2\<close> copied over
  \<open>dst[i:j]\<close>. Both are applied to bounds that \<open>parseBounds\<close> returned with status Good,
  which lie inside the slice, and \<open>splice\<close> only when \<open>len(v2) = j - i\<close>.
\<close>

definition slice :: "'a list \<Rightarrow> int \<Rightarrow> int \<Rightarrow> 'a list" where
  "slice xs i j = take (nat (j - i)) (drop (nat i) xs)"

definition splice :: "'a list \<Rightarrow> int \<Rightarrow> int \<Rightarrow> 'a list \<Rightarrow> 'a list" where
  "splice v1 i j v2 = take (nat i) v1 @ v2 @ drop (nat j) v1"

text \<open>
  The steps that every case of \<open>readRange\<close> and \<open>writeRange\<close> starts with: the test
  on the number of ranges (\<open>maxRanges\<close> is 1, or 2 for slices of strings and of
  ByteStrings), \<open>parseBounds\<close> on the first range for a value of length \<open>n\<close>, and the
  test \<open>status.IsBad()\<close>.
\<close>

definition rangeBounds :: "string list \<Rightarrow> nat \<Rightarrow> nat \<Rightarrow> status_code + (int \<times> int)" where
  "rangeBounds ranges maxRanges n =
     (if maxRanges < length ranges then Inl BadIndexRangeNoData
      else (case parseBounds (hd ranges) (int n) of
              (i, j, status) \<Rightarrow> if IsBad status then Inl status else Inr (i, j)))"

definition readFirst :: "string list \<Rightarrow> nat \<Rightarrow> 'a list \<Rightarrow> status_code + 'a list" where
  "readFirst ranges maxRanges src =
     (case rangeBounds ranges maxRanges (length src) of
        Inl st \<Rightarrow> Inl st
      | Inr (i, j) \<Rightarrow> Inr (slice src i j))"

text \<open>
  The inner loop of the cases \<open>[]string\<close> and \<open>[]ByteString\<close>: the second range is
  applied to each element in turn, and the first bad status ends \<open>readRange\<close>.
\<close>

fun readInner :: "string \<Rightarrow> 'a list list \<Rightarrow> status_code + 'a list list" where
  "readInner r [] = Inr []"
| "readInner r (v1 # rest) =
     (case parseBounds r (int (length v1)) of
        (i, j, status) \<Rightarrow>
          if IsBad status then Inl status
          else (case readInner r rest of
                  Inl st \<Rightarrow> Inl st
                | Inr rest' \<Rightarrow> Inr (slice v1 i j # rest')))"

definition readNested :: "string list \<Rightarrow> 'a list list \<Rightarrow> status_code + 'a list list" where
  "readNested ranges src =
     (case readFirst ranges 2 src of
        Inl st \<Rightarrow> Inl st
      | Inr dst \<Rightarrow> if 1 < length ranges then readInner (ranges ! 1) dst else Inr dst)"

definition readRange :: "DataValue \<Rightarrow> string \<Rightarrow> DataValue" where
  "readRange source indexRange =
     (if indexRange = [] then source
      else
        (let ranges = Split indexRange CHR '','';
             bad = (\<lambda>status. NewDataValue VNil status (SourceTimestamp source) 0
                                (ServerTimestamp source) 0);
             ok = (\<lambda>dst. NewDataValue dst (StatusCode source) (SourceTimestamp source) 0
                                (ServerTimestamp source) 0)
         in case Value source of
              VString src \<Rightarrow>
                (case readFirst ranges 1 src of Inl st \<Rightarrow> bad st | Inr dst \<Rightarrow> ok (VString dst))
            | VByteString src \<Rightarrow>
                (case readFirst ranges 1 src of Inl st \<Rightarrow> bad st | Inr dst \<Rightarrow> ok (VByteString dst))
            | VArray t src \<Rightarrow>
                (case readFirst ranges 1 src of Inl st \<Rightarrow> bad st | Inr dst \<Rightarrow> ok (VArray t dst))
            | VStrings src \<Rightarrow>
                (case readNested ranges src of Inl st \<Rightarrow> bad st | Inr dst \<Rightarrow> ok (VStrings dst))
            | VByteStrings src \<Rightarrow>
                (case readNested ranges src of Inl st \<Rightarrow> bad st | Inr dst \<Rightarrow> ok (VByteStrings dst))
            | _ \<Rightarrow> bad BadIndexRangeNoData))"

text \<open>
  The end of every case of \<open>writeRange\<close>, after the type assertion on the incoming
  value: the test \<open>j - i != len(v2)\<close>, then the two copies.
\<close>

definition writeCopy :: "'a list \<Rightarrow> int \<times> int \<Rightarrow> 'a list \<Rightarrow> status_code + 'a list" where
  "writeCopy src b v2 =
     (case b of (i, j) \<Rightarrow>
        if j - i \<noteq> int (length v2) then Inl BadIndexRangeNoData
        else Inr (splice src i j v2))"

definition writeResult ::
    "time \<Rightarrow> time \<Rightarrow> DataValue \<Rightarrow> ('a \<Rightarrow> variant) \<Rightarrow> status_code + 'a
      \<Rightarrow> panic + (DataValue \<times> status_code)" where
  "writeResult now1 now2 value mk r =
     (case r of
        Inl st \<Rightarrow> Inr (NilDataValue, st)
      | Inr dst \<Rightarrow> Inr (NewDataValue (mk dst) (StatusCode value) now1 0 now2 0, Good))"

text \<open>
  \<open>writeRange\<close> returns the new DataValue and a status, or panics: each case asserts the
  dynamic type of the incoming value (\<open>value.Value.([]bool)\<close>, ...) after the range was
  checked, without the comma-ok form. Only the first range is used, also in the cases
  \<open>[]string\<close> and \<open>[]ByteString\<close> that admit two. The two calls of \<open>time.Now()\<close> are the
  parameters \<open>now1\<close> and \<open>now2\<close>.
\<close>

definition writeRange ::
    "time \<Rightarrow> time \<Rightarrow> DataValue \<Rightarrow> DataValue \<Rightarrow> string \<Rightarrow> panic + (DataValue \<times> status_code)" where
  "writeRange now1 now2 source value indexRange =
     (if indexRange = [] then
        Inr (NewDataValue (Value value) (StatusCode value) now1 0 now2 0, Good)
      else
        (let ranges = Split indexRange CHR '',''
         in case Value source of
              VString src \<Rightarrow>
                (case rangeBounds ranges 1 (length src) of
                   Inl st \<Rightarrow> Inr (NilDataValue, st)
                 | Inr b \<Rightarrow>
                     (case Value value of
                        VString v2 \<Rightarrow> writeResult now1 now2 value VString (writeCopy src b v2)
                      | _ \<Rightarrow> Inl InterfaceConversion))
            | VByteString src \<Rightarrow>
                (case rangeBounds ranges 1 (length src) of
                   Inl st \<Rightarrow> Inr (NilDataValue, st)
                 | Inr b \<Rightarrow>
                     (case Value value of
                        VByteString v2 \<Rightarrow>
                          writeResult now1 now2 value VByteString (writeCopy src b v2)
                      | _ \<Rightarrow> Inl InterfaceConversion))
            | VArray t src \<Rightarrow>
                (case rangeBounds ranges 1 (length src) of
                   Inl st \<Rightarrow> Inr (NilDataValue, st)
                 | Inr b \<Rightarrow>
                     (case Value value of
                        VArray t2 v2 \<Rightarrow>
                          if t2 = t then writeResult now1 now2 value (VArray t) (writeCopy src b v2)
                          else Inl InterfaceConversion
                      | _ \<Rightarrow> Inl InterfaceConversion))
            | VStrings src \<Rightarrow>
                (case rangeBounds ranges 2 (length src) of
                   Inl st \<Rightarrow> Inr (NilDataValue, st)
                 | Inr b \<Rightarrow>
                     (case Value value of
                        VStrings v2 \<Rightarrow> writeResult now1 now2 value VStrings (writeCopy src b v2)
                      | _ \<Rightarrow> Inl InterfaceConversion))
            | VByteStrings src \<Rightarrow>
                (case rangeBounds ranges 2 (length src) of
                   Inl st \<Rightarrow> Inr (NilDataValue, st)
                 | Inr b \<Rightarrow>
                     (case Value value of
                        VByteStrings v2 \<Rightarrow>
                          writeResult now1 now2 value VByteStrings (writeCopy src b v2)
                      | _ \<Rightarrow> Inl InterfaceConversion))
            | _ \<Rightarrow> Inr (NilDataValue, BadIndexRangeNoData)))"

section \<open>The project manager\<close>

datatype ProjectManagerState =
    PROJECT_STATE_UNLOADED
  | PROJECT_STATE_LOADING
  | PROJECT_STATE_LOADED
  | PROJECT_STATE_RELOAD
  | PROJECT_STATE_ERROR

datatype trigger =
    triggerLoadProject
  | triggerErrorOccured
  | triggerLoadSuccess
  | triggerReloadProject
  | triggerLoadPlugins
  | triggerUnloadPlugins
  | triggerReloadPlugins

text \<open>
  Go \<open>error\<close> values: the package's \<open>ErrProjectNotLoaded\<close>, the error the state machine
  returns for a trigger that the current state does not handle, and an error from loading
  the project file, by its message.
\<close>

datatype go_error =
    ErrProjectNotLoaded
  | ErrUnhandledTrigger ProjectManagerState trigger
  | ErrLoad string

text \<open>
  The configuration that \<open>SetContext\<close> gives the state machine: for a state and a
  trigger, a transition to a state (\<open>Permit\<close>), an internal transition, or nothing.
\<close>

datatype behaviour = Permit ProjectManagerState | InternalTransition

fun configuration :: "ProjectManagerState \<Rightarrow> trigger \<Rightarrow> behaviour option" where
  "configuration PROJECT_STATE_UNLOADED t =
     (if t = triggerLoadProject then Some (Permit PROJECT_STATE_LOADING) else None)"
| "configuration PROJECT_STATE_LOADING t =
     (if t = triggerErrorOccured then Some (Permit PROJECT_STATE_ERROR)
      else if t = triggerLoadSuccess then Some (Permit PROJECT_STATE_LOADED)
      else None)"
| "configuration PROJECT_STATE_LOADED t =
     (if t = triggerReloadPlugins then Some InternalTransition
      else if t = triggerLoadPlugins then Some InternalTransition
      else if t = triggerUnloadPlugins then Some InternalTransition
      else if t = triggerReloadProject then Some (Permit PROJECT_STATE_RELOAD)
      else None)"
| "configuration PROJECT_STATE_ERROR t =
     (if t = triggerReloadProject then Some (Permit PROJECT_STATE_RELOAD) else None)"
| "configuration PROJECT_STATE_RELOAD t =
     (if t = triggerLoadProject then Some (Permit PROJECT_STATE_LOADING) else None)"

text \<open>
  The fields of \<open>ProjectManager\<close> that the state machine and the error accessors use:
  the state held by the machine (initially \<open>PROJECT_STATE_UNLOADED\<close>) and
  \<open>currentError\<close> (initially \<open>nil\<close>).
\<close>

record ProjectManager =
  state :: ProjectManagerState
  currentError :: "go_error option"

definition NewProjectManager :: ProjectManager where
  "NewProjectManager = \<lparr>state = PROJECT_STATE_UNLOADED, currentError = None\<rparr>"

text \<open>
  The \<open>OnEntry\<close> handlers. \<open>onLoading\<close> returns the error of reading and validating the
  project file, if any: the parameter \<open>load\<close>. \<open>onError\<close> stores \<open>args[0].(error)\<close>,
  which panics without an argument. \<open>onLoaded\<close> and \<open>onReload\<close> return \<open>nil\<close>.
\<close>

fun OnEntry ::
    "go_error option \<Rightarrow> ProjectManagerState \<Rightarrow> go_error list \<Rightarrow> ProjectManager
      \<Rightarrow> panic + (go_error option \<times> ProjectManager)" where
  "OnEntry load PROJECT_STATE_LOADING args p = Inr (load, p)"
| "OnEntry load PROJECT_STATE_ERROR args p =
     (case args of
        [] \<Rightarrow> Inl IndexOutOfRange
      | e # _ \<Rightarrow> Inr (None, p\<lparr>currentError := Some e\<rparr>))"
| "OnEntry load s args p = Inr (None, p)"

text \<open>
  \<open>StateMachine.Fire\<close> of the package \<open>github.com/qmuntal/stateless\<close>, which is
  not part of the sources, as the package documents it. A trigger that the current state
  does not handle returns an error and leaves the state as it is; an internal transition
  runs its action (here always returning \<open>nil\<close>) and keeps the state; a permitted
  transition sets the destination state and then runs its entry handler, whose error
  \<open>Fire\<close> returns.
\<close>

definition Fire ::
    "go_error option \<Rightarrow> trigger \<Rightarrow> go_error list \<Rightarrow> ProjectManager
      \<Rightarrow> panic + (go_error option \<times> ProjectManager)" where
  "Fire load t args p =
     (case configuration (state p) t of
        None \<Rightarrow> Inr (Some (ErrUnhandledTrigger (state p) t), p)
      | Some InternalTransition \<Rightarrow> Inr (None, p)
      | Some (Permit d) \<Rightarrow> OnEntry load d args (p\<lparr>state := d\<rparr>))"

definition GetCurrentError :: "ProjectManager \<Rightarrow> go_error option" where
  "GetCurrentError p = currentError p"

definition GetCurrentState :: "ProjectManager \<Rightarrow> ProjectManagerState" where
  "GetCurrentState p = state p"

definition HasError :: "ProjectManager \<Rightarrow> go_error option" where
  "HasError p =
     (case state p of
        PROJECT_STATE_ERROR \<Rightarrow> currentError p
      | PROJECT_STATE_UNLOADED \<Rightarrow> Some ErrProjectNotLoaded
      | _ \<Rightarrow> None)"

text \<open>The managers that a sequence of \<open>Fire\<close> calls can produce from a new one.\<close>

inductive reachable :: "ProjectManager \<Rightarrow> bool" where
  reachable_new: "reachable NewProjectManager"
| reachable_Fire: "reachable p \<Longrightarrow> Fire load t args p = Inr (r, p') \<Longrightarrow> reachable p'"

text \<open>
  \<open>Load\<close> and \<open>ReloadProject\<close>: fire the triggers in turn; an error of one \<open>Fire\<close> is
  passed to the trigger \<open>triggerErrorOccured\<close>, whose own result is dropped.
  \<open>ReloadProject\<close> first asks \<open>CanFire\<close>: where the trigger is not permitted in the
  current state, \<open>CanFire\<close> answers false with a nil error, and that nil error is
  returned with the manager unchanged.
\<close>

definition Load :: "go_error option \<Rightarrow> ProjectManager \<Rightarrow> panic + ProjectManager" where
  "Load load p =
     (case Fire load triggerLoadProject [] p of
        Inl x \<Rightarrow> Inl x
      | Inr (Some err, p1) \<Rightarrow>
          (case Fire load triggerErrorOccured [err] p1 of
             Inl x \<Rightarrow> Inl x
           | Inr (_, p2) \<Rightarrow> Inr p2)
      | Inr (None, p1) \<Rightarrow>
          (case Fire load triggerLoadSuccess [] p1 of
             Inl x \<Rightarrow> Inl x
           | Inr (_, p2) \<Rightarrow> Inr p2))"

definition ReloadProject ::
    "go_error option \<Rightarrow> ProjectManager \<Rightarrow> panic + (go_error option \<times> ProjectManager)" where
  "ReloadProject load p =
     (case configuration (state p) triggerReloadProject of
        None \<Rightarrow> Inr (None, p)
      | Some _ \<Rightarrow>
          (case Fire load triggerReloadProject [] p of
             Inl x \<Rightarrow> Inl x
           | Inr (Some err, p1) \<Rightarrow>
               (case Fire load triggerErrorOccured [err] p1 of
                  Inl x \<Rightarrow> Inl x
                | Inr (_, p2) \<Rightarrow> Inr (Some err, p2))
           | Inr (None, p1) \<Rightarrow>
               (case Fire load triggerLoadProject [] p1 of
                  Inl x \<Rightarrow> Inl x
                | Inr (Some err, p2) \<Rightarrow>
                    (case Fire load triggerErrorOccured [err] p2 of
                       Inl x \<Rightarrow> Inl x
                     | Inr (_, p3) \<Rightarrow> Inr (Some err, p3))
                | Inr (None, p2) \<Rightarrow>
                    (case Fire load triggerLoadSuccess [] p2 of
                       Inl x \<Rightarrow> Inl x
                     | Inr (_, p3) \<Rightarrow> Inr (None, p3)))))"

section \<open>Sessions, permissions and variable nodes\<close>

record RolePermissionType =
  RoleID :: NodeID
  Permissions :: "32 word"

text \<open>
  Of a \<open>Session\<close>: the roles of its user, and the result of
  \<open>session.Server().RolePermissions()\<close>, the default role permissions of the server.
\<close>

record Session =
  UserRoles :: "NodeID list"
  Server_RolePermissions :: "RolePermissionType list"

text \<open>
  Of a \<open>context.Context\<close>: the value stored under \<open>SessionKey\<close>, a \<open>*Session\<close> or
  nothing, and the roles stored under \<open>CtxKeyUserRoles\<close>, if any.
\<close>

record Context =
  SessionKey :: "Session option"
  CtxKeyUserRoles :: "NodeID list option"

text \<open>
  Constants of the \<open>ua\<close> package and the function \<open>IsUserPermitted\<close> of the \<open>server\<close>
  package are declared outside the available sources. They are a parameter of the
  functions below. \<open>OtherVariableAttributeIDs\<close> lists the attribute ids that
  \<open>VariableNode.IsAttributeIDValid\<close> accepts besides \<open>AttributeIDValue\<close> and
  \<open>AttributeIDHistorizing\<close>.
\<close>

record ua_decls =
  AccessLevelsCurrentRead :: byte
  AccessLevelsCurrentWrite :: byte
  AccessLevelsHistoryRead :: byte
  PermissionTypeBrowse :: "32 word"
  PermissionTypeRead :: "32 word"
  PermissionTypeWrite :: "32 word"
  PermissionTypeReadHistory :: "32 word"
  PermissionTypeWriteHistorizing :: "32 word"
  ValueRankScalarOrOneDimension :: int
  ValueRankAny :: int
  ValueRankScalar :: int
  ValueRankOneOrMoreDimensions :: int
  ValueRankOneDimension :: int
  AttributeIDValue :: "32 word"
  AttributeIDHistorizing :: "32 word"
  DeadbandTypeNone :: "32 word"
  DataChangeTriggerStatusValue :: "32 word"
  OtherVariableAttributeIDs :: "32 word list"
  IsUserPermitted :: "RolePermissionType list \<Rightarrow> 32 word \<Rightarrow> bool"

text \<open>
  An instance of the parameter with the values of the OPC UA standard, for evaluating the
  functions on examples; \<open>IsUserPermitted\<close> holds when some entry has a bit of the
  permission.
\<close>

definition opcua_decls :: ua_decls where
  "opcua_decls =
     \<lparr>AccessLevelsCurrentRead = 1, AccessLevelsCurrentWrite = 2, AccessLevelsHistoryRead = 4,
      PermissionTypeBrowse = 1, PermissionTypeRead = 32, PermissionTypeWrite = 64,
      PermissionTypeReadHistory = 128, PermissionTypeWriteHistorizing = 16,
      ValueRankScalarOrOneDimension = -3, ValueRankAny = -2, ValueRankScalar = -1,
      ValueRankOneOrMoreDimensions = 0, ValueRankOneDimension = 1,
      AttributeIDValue = 13, AttributeIDHistorizing = 20,
      DeadbandTypeNone = 0, DataChangeTriggerStatusValue = 1,
      OtherVariableAttributeIDs = [1, 2, 3, 4, 5, 24, 25, 14, 15, 16, 17, 18, 19],
      IsUserPermitted = (\<lambda>rps p. list_ex (\<lambda>rp. Permissions rp AND p \<noteq> 0) rps)\<rparr>"

record ReadValueID =
  rv_NodeID :: NodeID
  rv_AttributeID :: "32 word"
  rv_IndexRange :: string
  rv_DataEncoding_Name :: string

record WriteValue =
  wv_NodeID :: NodeID
  wv_AttributeID :: "32 word"
  wv_IndexRange :: string
  wv_Value :: DataValue

text \<open>
  The fields of a \<open>VariableNode\<close> that the services read and write. \<open>RolePermissions\<close>
  is \<open>None\<close> for a \<open>nil\<close> slice. \<open>NodeValue\<close> is the field \<open>Value\<close>.
  \<open>ctx_RolePermissions\<close> is what \<open>n.ctx.Value(CtxKeyUAServer).(*UAServer).RolePermissions()\<close>
  returns.
\<close>

record VariableNode =
  NodeId :: NodeID
  RolePermissions :: "RolePermissionType list option"
  NodeValue :: DataValue
  DataType :: NodeID
  ValueRank :: int
  AccessLevel :: byte
  Historizing :: bool
  ReadValueHandler :: "(Context \<Rightarrow> ReadValueID \<Rightarrow> DataValue) option"
  WriteValueHandler :: "(Context \<Rightarrow> WriteValue \<Rightarrow> DataValue \<times> status_code) option"
  ctx_RolePermissions :: "RolePermissionType list"

text \<open>
  The two nested loops of \<open>GetUserRolePermissions\<close>: for each role in turn, the entries
  of \<open>rolePermissions\<close> with that role, in order.
\<close>

definition filterPermissions ::
    "NodeID list \<Rightarrow> RolePermissionType list \<Rightarrow> RolePermissionType list" where
  "filterPermissions roles rolePermissions =
     concat (map (\<lambda>role. filter (\<lambda>rp. RoleID rp = role) rolePermissions) roles)"

definition GetUserRolePermissions :: "Context \<Rightarrow> VariableNode \<Rightarrow> RolePermissionType list" where
  "GetUserRolePermissions ctx n =
     (case SessionKey ctx of
        Some session \<Rightarrow>
          filterPermissions (UserRoles session)
            (case RolePermissions n of
               None \<Rightarrow> Server_RolePermissions session
             | Some rolePermissions \<Rightarrow> rolePermissions)
      | None \<Rightarrow>
          (case CtxKeyUserRoles ctx of
             Some roles \<Rightarrow>
               filterPermissions roles
                 (case RolePermissions n of
                    None \<Rightarrow> ctx_RolePermissions n
                  | Some rolePermissions \<Rightarrow> rolePermissions)
           | None \<Rightarrow> []))"

text \<open>
  The loops of \<open>UserAccessLevel\<close> set a flag when an entry of a role of the user has a
  bit of the permission: \<open>granted\<close> is the flag after the loops.
\<close>

definition granted :: "NodeID list \<Rightarrow> RolePermissionType list \<Rightarrow> 32 word \<Rightarrow> bool" where
  "granted roles rolePermissions permission =
     list_ex (\<lambda>role. list_ex (\<lambda>rp. RoleID rp = role \<and> Permissions rp AND permission \<noteq> 0)
                rolePermissions) roles"

definition UserAccessLevel :: "ua_decls \<Rightarrow> Context \<Rightarrow> VariableNode \<Rightarrow> byte" where
  "UserAccessLevel K ctx n =
     (case SessionKey ctx of
        None \<Rightarrow> 0
      | Some session \<Rightarrow>
          (let roles = UserRoles session;
               rolePermissions =
                 (case RolePermissions n of
                    None \<Rightarrow> Server_RolePermissions session
                  | Some rps \<Rightarrow> rps);
               currentRead = granted roles rolePermissions (PermissionTypeRead K);
               currentWrite = granted roles rolePermissions (PermissionTypeWrite K);
               historyRead = granted roles rolePermissions (PermissionTypeReadHistory K);
               a1 = (if \<not> currentRead then AccessLevel n AND NOT (AccessLevelsCurrentRead K)
                     else AccessLevel n);
               a2 = (if \<not> currentWrite then a1 AND NOT (AccessLevelsCurrentWrite K) else a1);
               a3 = (if \<not> historyRead then a2 AND NOT (AccessLevelsHistoryRead K) else a2)
           in a3))"

section \<open>The server: reading and writing the Value attribute\<close>

text \<open>
  A node found by the namespace manager: a \<open>*VariableNode\<close>, or a node of another class,
  of which the services below only use the results of \<open>GetUserRolePermissions(ctx)\<close> and
  of \<open>IsAttributeIDValid(attributeID)\<close>.
\<close>

datatype Node =
    VariableNodeOf VariableNode
  | OtherNode "Context \<Rightarrow> RolePermissionType list" "32 word \<Rightarrow> bool"

fun Node_GetUserRolePermissions :: "Context \<Rightarrow> Node \<Rightarrow> RolePermissionType list" where
  "Node_GetUserRolePermissions ctx (VariableNodeOf n) = GetUserRolePermissions ctx n"
| "Node_GetUserRolePermissions ctx (OtherNode rp valid) = rp ctx"

text \<open>
  Of the server: the namespace manager's \<open>FindNode\<close> and \<open>FindVariantType\<close> (declared
  outside the available sources, so taken as they are), the three length limits of
  \<open>serverCapabilities\<close>, and the values that \<open>SetValue\<close> passed to the historian.
\<close>

record UAServer =
  FindNode :: "NodeID \<Rightarrow> Node option"
  FindVariantType :: "NodeID \<Rightarrow> VariantType"
  MaxStringLength :: nat
  MaxByteStringLength :: nat
  MaxArrayLength :: nat
  historian_WriteValue :: "(NodeID \<times> DataValue) list"

text \<open>
  \<open>readValue\<close>. The error results carry the zero source timestamp and \<open>time.Now()\<close>,
  the parameter \<open>now\<close>, as server timestamp. \<open>None\<close> stands for the cases of the
  attribute switch other than \<open>AttributeIDValue\<close>, which are not modelled.
\<close>

definition readValue ::
    "ua_decls \<Rightarrow> UAServer \<Rightarrow> Context \<Rightarrow> time \<Rightarrow> ReadValueID \<Rightarrow> DataValue option" where
  "readValue K srv ctx now readValueId =
     (if rv_DataEncoding_Name readValueId \<noteq> [] then
        Some (NewDataValue VNil BadDataEncodingInvalid 0 0 now 0)
      else if rv_IndexRange readValueId \<noteq> []
              \<and> rv_AttributeID readValueId \<noteq> AttributeIDValue K then
        Some (NewDataValue VNil BadIndexRangeNoData 0 0 now 0)
      else
        (case FindNode srv (rv_NodeID readValueId) of
           None \<Rightarrow> Some (NewDataValue VNil BadNodeIDUnknown 0 0 now 0)
         | Some n \<Rightarrow>
             if \<not> IsUserPermitted K (Node_GetUserRolePermissions ctx n) (PermissionTypeBrowse K)
             then Some (NewDataValue VNil BadNodeIDUnknown 0 0 now 0)
             else if rv_AttributeID readValueId = AttributeIDValue K then
               (case n of
                  VariableNodeOf n1 \<Rightarrow>
                    if AccessLevel n1 AND AccessLevelsCurrentRead K = 0 then
                      Some (NewDataValue VNil BadNotReadable 0 0 now 0)
                    else if UserAccessLevel K ctx n1 AND AccessLevelsCurrentRead K = 0 then
                      Some (NewDataValue VNil BadUserAccessDenied 0 0 now 0)
                    else
                      (case ReadValueHandler n1 of
                         Some f \<Rightarrow> Some (f ctx readValueId)
                       | None \<Rightarrow> Some (readRange (NodeValue n1) (rv_IndexRange readValueId)))
                | OtherNode rp valid \<Rightarrow>
                    Some (NewDataValue VNil BadAttributeIDInvalid 0 0 now 0))
             else None))"

text \<open>
  The type switch of \<open>writeValue\<close> on the dynamic type of the value. A case names the
  variant type that the destination must have, unless the destination is a Variant, and
  the ranks it admits. \<open>scalarCase\<close> and \<open>arrayCase\<close> give the variant type that the
  case of a scalar and of a slice of each element type names; \<open>None\<close> is an element type
  without a case of its own, which falls to \<open>default\<close>.
\<close>

fun scalarCase :: "gotype \<Rightarrow> VariantType option" where
  "scalarCase Gbool = Some VariantTypeBoolean"
| "scalarCase Gint8 = Some VariantTypeSByte"
| "scalarCase Guint8 = Some VariantTypeByte"
| "scalarCase Gint16 = Some VariantTypeInt16"
| "scalarCase Guint16 = Some VariantTypeUInt16"
| "scalarCase Gint32 = Some VariantTypeInt32"
| "scalarCase Guint32 = Some VariantTypeUInt32"
| "scalarCase Gint64 = Some VariantTypeInt64"
| "scalarCase Guint64 = Some VariantTypeUInt64"
| "scalarCase Gfloat32 = Some VariantTypeFloat"
| "scalarCase Gfloat64 = Some VariantTypeDouble"
| "scalarCase GTime = Some VariantTypeDateTime"
| "scalarCase GUUID = Some VariantTypeGUID"
| "scalarCase GXMLElement = Some VariantTypeXMLElement"
| "scalarCase GNodeID = Some VariantTypeNodeID"
| "scalarCase GExpandedNodeID = Some VariantTypeExpandedNodeID"
| "scalarCase GStatusCode = Some VariantTypeStatusCode"
| "scalarCase GQualifiedName = Some VariantTypeQualifiedName"
| "scalarCase GLocalizedText = Some VariantTypeLocalizedText"
| "scalarCase GExtensionObject = None"
| "scalarCase GDataValue = None"
| "scalarCase GVariant = None"
| "scalarCase GDiagnosticInfo = None"

fun arrayCase :: "gotype \<Rightarrow> VariantType option" where
  "arrayCase GExtensionObject = Some VariantTypeExtensionObject"
| "arrayCase GDataValue = Some VariantTypeDataValue"
| "arrayCase GVariant = Some VariantTypeVariant"
| "arrayCase GDiagnosticInfo = None"
| "arrayCase t = scalarCase t"

definition checkScalar :: "ua_decls \<Rightarrow> VariantType \<Rightarrow> int \<Rightarrow> VariantType \<Rightarrow> status_code option" where
  "checkScalar K destType destRank t =
     (if destType \<noteq> t \<and> destType \<noteq> VariantTypeVariant then Some BadTypeMismatch
      else if destRank \<noteq> ValueRankScalar K \<and> destRank \<noteq> ValueRankScalarOrOneDimension K
              \<and> destRank \<noteq> ValueRankAny K then Some BadTypeMismatch
      else None)"

definition checkArray ::
    "ua_decls \<Rightarrow> UAServer \<Rightarrow> VariantType \<Rightarrow> int \<Rightarrow> VariantType \<Rightarrow> nat \<Rightarrow> status_code option" where
  "checkArray K srv destType destRank t len =
     (if MaxArrayLength srv < len then Some BadOutOfRange
      else if destType \<noteq> t \<and> destType \<noteq> VariantTypeVariant then Some BadTypeMismatch
      else if destRank \<noteq> ValueRankOneDimension K \<and> destRank \<noteq> ValueRankOneOrMoreDimensions K
              \<and> destRank \<noteq> ValueRankScalarOrOneDimension K \<and> destRank \<noteq> ValueRankAny K
           then Some BadTypeMismatch
      else None)"

text \<open>
  The result of the switch: the status that \<open>writeValue\<close> returns at once, or \<open>None\<close>
  when the value passes. The case \<open>nil\<close> is empty. The \<open>default\<close> case, commented
  \<open>case ua.ExtensionObject\<close>, takes every other dynamic type.
\<close>

definition checkValue ::
    "ua_decls \<Rightarrow> UAServer \<Rightarrow> VariantType \<Rightarrow> int \<Rightarrow> variant \<Rightarrow> status_code option" where
  "checkValue K srv destType destRank v =
     (case v of
        VNil \<Rightarrow> None
      | VScalar t a \<Rightarrow>
          (case scalarCase t of
             Some vt \<Rightarrow> checkScalar K destType destRank vt
           | None \<Rightarrow> checkScalar K destType destRank VariantTypeExtensionObject)
      | VString v2 \<Rightarrow>
          if MaxStringLength srv < len_string v2 then Some BadOutOfRange
          else checkScalar K destType destRank VariantTypeString
      | VByteString v2 \<Rightarrow>
          if MaxByteStringLength srv < length v2 then Some BadOutOfRange
          else checkScalar K destType destRank VariantTypeByteString
      | VArray t v2 \<Rightarrow>
          (case arrayCase t of
             Some vt \<Rightarrow> checkArray K srv destType destRank vt (length v2)
           | None \<Rightarrow> checkScalar K destType destRank VariantTypeExtensionObject)
      | VStrings v2 \<Rightarrow> checkArray K srv destType destRank VariantTypeString (length v2)
      | VByteStrings v2 \<Rightarrow> checkArray K srv destType destRank VariantTypeByteString (length v2)
      | VOther \<Rightarrow> checkScalar K destType destRank VariantTypeExtensionObject)"

text \<open>
  The two special cases before the switch: a ByteString for a one-dimensional Byte
  variable becomes a \<open>[]byte\<close>, and a \<open>[]byte\<close> for a scalar ByteString variable
  becomes a ByteString.
\<close>

definition convertBytes :: "ua_decls \<Rightarrow> VariantType \<Rightarrow> int \<Rightarrow> variant \<Rightarrow> variant" where
  "convertBytes K destType destRank v =
     (let v1 = (if destType = VariantTypeByte \<and> destRank = ValueRankOneDimension K then
                  (case v of VByteString b \<Rightarrow> VArray Guint8 b | _ \<Rightarrow> v)
                else v)
      in if destType = VariantTypeByteString \<and> destRank = ValueRankScalar K then
           (case v1 of
              VArray t b \<Rightarrow> if t = Guint8 then VByteString b else v1
            | _ \<Rightarrow> v1)
         else v1)"

text \<open>
  \<open>SetValue\<close>: the node, found under \<open>nodeID\<close>, gets the value, and a historizing node
  passes it to the historian. The refresh of the plugin properties of the owner is outside
  this model.
\<close>

definition SetValue :: "UAServer \<Rightarrow> NodeID \<Rightarrow> VariableNode \<Rightarrow> DataValue \<Rightarrow> UAServer" where
  "SetValue srv nodeID n value =
     srv\<lparr>FindNode := (FindNode srv)(nodeID \<mapsto> VariableNodeOf (n\<lparr>NodeValue := value\<rparr>)),
         historian_WriteValue :=
           (if Historizing n then historian_WriteValue srv @ [(NodeId n, value)]
            else historian_WriteValue srv)\<rparr>"

definition SetHistorizing :: "UAServer \<Rightarrow> NodeID \<Rightarrow> VariableNode \<Rightarrow> bool \<Rightarrow> UAServer" where
  "SetHistorizing srv nodeID n historizing =
     srv\<lparr>FindNode := (FindNode srv)(nodeID \<mapsto> VariableNodeOf (n\<lparr>Historizing := historizing\<rparr>))\<rparr>"

text \<open>The case \<open>AttributeIDValue\<close> of \<open>writeValue\<close> for a \<open>*VariableNode\<close>.\<close>

definition writeValue_Value ::
    "ua_decls \<Rightarrow> UAServer \<Rightarrow> Context \<Rightarrow> time \<Rightarrow> time \<Rightarrow> WriteValue \<Rightarrow> VariableNode
      \<Rightarrow> panic + (status_code \<times> UAServer)" where
  "writeValue_Value K srv ctx now1 now2 wv n1 =
     (if AccessLevel n1 AND AccessLevelsCurrentWrite K = 0 then Inr (BadNotWritable, srv)
      else if UserAccessLevel K ctx n1 AND AccessLevelsCurrentWrite K = 0 then
        Inr (BadUserAccessDenied, srv)
      else
        (let destType = FindVariantType srv (DataType n1);
             destRank = ValueRank n1;
             value = (wv_Value wv)
                       \<lparr>Value := convertBytes K destType destRank (Value (wv_Value wv))\<rparr>;
             wv' = wv\<lparr>wv_Value := value\<rparr>
         in case checkValue K srv destType destRank (Value value) of
              Some status \<Rightarrow> Inr (status, srv)
            | None \<Rightarrow>
                (case WriteValueHandler n1 of
                   Some f \<Rightarrow>
                     (case f ctx wv' of
                        (result, status) \<Rightarrow>
                          Inr (status,
                               if status = Good
                               then SetValue srv (wv_NodeID wv) n1 result else srv))
                 | None \<Rightarrow>
                     (case writeRange now1 now2 (NodeValue n1) value (wv_IndexRange wv) of
                        Inl p \<Rightarrow> Inl p
                      | Inr (result, status) \<Rightarrow>
                          Inr (status,
                               if status = Good
                               then SetValue srv (wv_NodeID wv) n1 result else srv)))))"

definition writeValue ::
    "ua_decls \<Rightarrow> UAServer \<Rightarrow> Context \<Rightarrow> time \<Rightarrow> time \<Rightarrow> WriteValue
      \<Rightarrow> panic + (status_code \<times> UAServer)" where
  "writeValue K srv ctx now1 now2 wv =
     (case FindNode srv (wv_NodeID wv) of
        None \<Rightarrow> Inr (BadNodeIDUnknown, srv)
      | Some n \<Rightarrow>
          (let rp = Node_GetUserRolePermissions ctx n
           in if \<not> IsUserPermitted K rp (PermissionTypeBrowse K) then Inr (BadNodeIDUnknown, srv)
              else if wv_AttributeID wv = AttributeIDValue K then
                (case n of
                   VariableNodeOf n1 \<Rightarrow> writeValue_Value K srv ctx now1 now2 wv n1
                 | OtherNode f valid \<Rightarrow> Inr (BadAttributeIDInvalid, srv))
              else if wv_AttributeID wv = AttributeIDHistorizing K then
                (case n of
                   VariableNodeOf n1 \<Rightarrow>
                     if \<not> IsUserPermitted K rp (PermissionTypeWriteHistorizing K) then
                       Inr (BadUserAccessDenied, srv)
                     else
                       (case Value (wv_Value wv) of
                          VScalar t v \<Rightarrow>
                            if t = Gbool then
                              Inr (Good, SetHistorizing srv (wv_NodeID wv) n1 (v \<noteq> 0))
                            else Inr (BadTypeMismatch, srv)
                        | _ \<Rightarrow> Inr (BadTypeMismatch, srv))
                 | OtherNode f valid \<Rightarrow> Inr (BadAttributeIDInvalid, srv))
              else Inr (BadAttributeIDInvalid, srv)))"

section \<open>The server: creating monitored items\<close>

text \<open>
  \<open>validateIndexRange\<close>: each range must parse as \<open>parseBounds\<close> would read it, and
  the number of ranges must fit the rank of the variable, with one more range admitted for
  String and ByteString.
\<close>

definition validRange :: "string \<Rightarrow> bool" where
  "validRange r =
     (case Index r CHR '':'' of
        Some index \<Rightarrow>
          (case ParseInt (take index r) 32 of
             None \<Rightarrow> False
           | Some lo \<Rightarrow>
               (case ParseInt (drop (index + 1) r) 32 of
                  None \<Rightarrow> False
                | Some hi \<Rightarrow> \<not> hi < 0 \<and> \<not> hi \<le> lo \<and> \<not> lo < 0))
      | None \<Rightarrow>
          (case ParseInt r 32 of
             None \<Rightarrow> False
           | Some lo \<Rightarrow> \<not> lo < 0))"

definition validateIndexRange ::
    "ua_decls \<Rightarrow> UAServer \<Rightarrow> string \<Rightarrow> NodeID \<Rightarrow> int \<Rightarrow> status_code" where
  "validateIndexRange K srv s dataType rank =
     (if s = [] then Good
      else
        (let ranges = Split s CHR '','';
             destType = FindVariantType srv dataType;
             stringLike = (destType = VariantTypeString \<or> destType = VariantTypeByteString);
             fits = (\<lambda>diff. diff = 0 \<or> (diff = 1 \<and> stringLike))
         in if \<not> list_all validRange ranges then BadIndexRangeInvalid
            else if rank = ValueRankScalarOrOneDimension K then
              (if fits (int (length ranges) - 1) then Good else BadIndexRangeNoData)
            else if rank = ValueRankAny K then Good
            else if rank = ValueRankScalar K then
              (if length ranges = 1 \<and> stringLike then Good else BadIndexRangeNoData)
            else if rank = ValueRankOneOrMoreDimensions K then Good
            else (if fits (int (length ranges) - rank) then Good else BadIndexRangeNoData)))"

record DataChangeFilter =
  Trigger :: "32 word"
  DeadbandType :: "32 word"
  DeadbandValue :: atom

text \<open>The dynamic type of \<open>RequestedParameters.Filter\<close>, an \<open>interface{}\<close>.\<close>

datatype MonitoringFilter =
    FilterNil
  | DataChangeFilterOf DataChangeFilter
  | EventFilterOf
  | OtherFilter

text \<open>
  Of a \<open>MonitoredItemCreateRequest\<close>: the item to monitor, the monitoring mode and the
  filter of the requested parameters. The other requested parameters only pass through
  to \<open>NewMonitoredItem\<close>.
\<close>

record MonitoredItemCreateRequest =
  ItemToMonitor :: ReadValueID
  MonitoringMode :: "32 word"
  Filter :: MonitoringFilter

definition VariableNode_IsAttributeIDValid :: "ua_decls \<Rightarrow> 32 word \<Rightarrow> bool" where
  "VariableNode_IsAttributeIDValid K attributeID =
     (attributeID = AttributeIDValue K \<or> attributeID = AttributeIDHistorizing K
      \<or> attributeID \<in> set (OtherVariableAttributeIDs K))"

fun Node_IsAttributeIDValid :: "ua_decls \<Rightarrow> Node \<Rightarrow> 32 word \<Rightarrow> bool" where
  "Node_IsAttributeIDValid K (VariableNodeOf n) attributeID =
     VariableNode_IsAttributeIDValid K attributeID"
| "Node_IsAttributeIDValid K (OtherNode rp valid) attributeID = valid attributeID"

text \<open>The destination types for which the switch on \<open>destType\<close> admits a deadband.\<close>

definition deadbandAllowed :: "VariantType \<Rightarrow> bool" where
  "deadbandAllowed destType =
     (case destType of
        VariantTypeByte \<Rightarrow> True | VariantTypeSByte \<Rightarrow> True
      | VariantTypeInt16 \<Rightarrow> True | VariantTypeInt32 \<Rightarrow> True | VariantTypeInt64 \<Rightarrow> True
      | VariantTypeUInt16 \<Rightarrow> True | VariantTypeUInt32 \<Rightarrow> True | VariantTypeUInt64 \<Rightarrow> True
      | VariantTypeFloat \<Rightarrow> True | VariantTypeDouble \<Rightarrow> True
      | _ \<Rightarrow> False)"

text \<open>
  The body of the loop of \<open>handleCreateMonitoredItems\<close> for one item: the status of its
  result, and the items of the subscription afterwards. \<open>NewMonitoredItem\<close> is declared
  outside the available sources: the parameter \<open>newItem\<close> makes the item from the node
  and the request. A result with status Good is the result of a created item. \<open>None\<close>
  stands for the cases of the attribute switch other than \<open>AttributeIDValue\<close>, which are
  not modelled.
\<close>

definition createMonitoredItem ::
    "ua_decls \<Rightarrow> UAServer \<Rightarrow> Context \<Rightarrow> (Node \<Rightarrow> MonitoredItemCreateRequest \<Rightarrow> 'mi)
      \<Rightarrow> 'mi list \<Rightarrow> MonitoredItemCreateRequest \<Rightarrow> (status_code \<times> 'mi list) option" where
  "createMonitoredItem K srv ctx newItem items item =
     (case FindNode srv (rv_NodeID (ItemToMonitor item)) of
        None \<Rightarrow> Some (BadNodeIDUnknown, items)
      | Some n \<Rightarrow>
          (let attr = rv_AttributeID (ItemToMonitor item)
           in if \<not> Node_IsAttributeIDValid K n attr then Some (BadAttributeIDInvalid, items)
              else if attr = AttributeIDValue K then
                (case n of
                   OtherNode rp valid \<Rightarrow> Some (BadAttributeIDInvalid, items)
                 | VariableNodeOf n2 \<Rightarrow>
                     if AccessLevel n2 AND AccessLevelsCurrentRead K = 0 then
                       Some (BadNotReadable, items)
                     else if UserAccessLevel K ctx n2 AND AccessLevelsCurrentRead K = 0 then
                       Some (BadUserAccessDenied, items)
                     else if validateIndexRange K srv (rv_IndexRange (ItemToMonitor item))
                               (DataType n2) (ValueRank n2) \<noteq> Good then
                       Some (validateIndexRange K srv (rv_IndexRange (ItemToMonitor item))
                               (DataType n2) (ValueRank n2), items)
                     else
                       (let item' =
                              (if Filter item = FilterNil then
                                 item\<lparr>Filter := DataChangeFilterOf
                                        \<lparr>Trigger = DataChangeTriggerStatusValue K,
                                         DeadbandType = 0, DeadbandValue = 0\<rparr>\<rparr>
                               else item)
                        in case Filter item' of
                             DataChangeFilterOf dcf \<Rightarrow>
                               if DeadbandType dcf \<noteq> DeadbandTypeNone K
                                  \<and> \<not> deadbandAllowed (FindVariantType srv (DataType n2))
                               then Some (BadFilterNotAllowed, items)
                               else Some (Good, items @ [newItem n item'])
                           | _ \<Rightarrow> Some (BadFilterNotAllowed, items)))
              else None))"

section \<open>The type and rank rule of a write, as the specification words it\<close>







section \<open>Example values\<close>

text \<open>
  A role, a session of a user with that role, for which the server grants the role the
  permissions \<open>perms\<close>, its request context, a variable node and a server that holds the
  node. They serve to evaluate the functions on concrete inputs.
\<close>

definition demo_role :: NodeID where
  "demo_role = NodeIDNumeric 0 15668"

definition demo_ctx :: "32 word \<Rightarrow> Context" where
  "demo_ctx perms =
     \<lparr>SessionKey = Some \<lparr>UserRoles = [demo_role],
                         Server_RolePermissions = [\<lparr>RoleID = demo_role, Permissions = perms\<rparr>]\<rparr>,
      CtxKeyUserRoles = None\<rparr>"

definition no_session_ctx :: Context where
  "no_session_ctx = \<lparr>SessionKey = None, CtxKeyUserRoles = None\<rparr>"

definition demo_variable :: "variant \<Rightarrow> NodeID \<Rightarrow> int \<Rightarrow> byte \<Rightarrow> VariableNode" where
  "demo_variable v dataType rank accessLevel =
     \<lparr>NodeId = NodeIDString 2 ''Demo'', RolePermissions = None,
      NodeValue = NewDataValue v Good 1 0 1 0, DataType = dataType, ValueRank = rank,
      AccessLevel = accessLevel, Historizing = False, ReadValueHandler = None,
      WriteValueHandler = None, ctx_RolePermissions = []\<rparr>"

text \<open>
  The server knows the node \<open>ns=2;s=Demo\<close>, and maps the data types \<open>i=6\<close> (Int32),
  \<open>i=12\<close> (String), \<open>i=15\<close> (ByteString) and \<open>i=3\<close> (Byte) to their variant types.
\<close>

definition demo_server :: "VariableNode \<Rightarrow> UAServer" where
  "demo_server n =
     \<lparr>FindNode = (\<lambda>i. if i = NodeIDString 2 ''Demo'' then Some (VariableNodeOf n) else None),
      FindVariantType =
        (\<lambda>d. if d = NodeIDNumeric 0 6 then VariantTypeInt32
             else if d = NodeIDNumeric 0 12 then VariantTypeString
             else if d = NodeIDNumeric 0 15 then VariantTypeByteString
             else if d = NodeIDNumeric 0 3 then VariantTypeByte
             else VariantTypeNull),
      MaxStringLength = 4, MaxByteStringLength = 4, MaxArrayLength = 4,
      historian_WriteValue = []\<rparr>"

text \<open>A write of the value \<open>v\<close> to the Value attribute of the node \<open>ns=2;s=Demo\<close>.\<close>

definition demo_write :: "variant \<Rightarrow> WriteValue" where
  "demo_write v =
     \<lparr>wv_NodeID = NodeIDString 2 ''Demo'', wv_AttributeID = 13, wv_IndexRange = [],
      wv_Value = NewDataValue v Good 0 0 0 0\<rparr>"

section \<open>Verified properties\<close>

subsection \<open>Rules for evaluating the functions on examples\<close>

lemmas parse_eval = parseBounds_def parseBounds_finish_def ParseInt_def isDigit_def digitVal_def

lemmas pm_eval = Fire_def Load_def ReloadProject_def NewProjectManager_def GetCurrentError_def
  HasError_def

lemmas demo_eval = demo_role_def demo_ctx_def no_session_ctx_def demo_variable_def
  demo_server_def opcua_decls_def

lemmas access_eval = UserAccessLevel_def granted_def GetUserRolePermissions_def
  filterPermissions_def Let_def

subsection \<open>Index ranges\<close>

lemma Index_Some_nonempty: "Index s c = Some i \<Longrightarrow> s \<noteq> []"
  by (cases s) auto

text \<open>
  C1 (amended). \<open>parseBounds\<close> reads each index with \<open>ParseInt(_, 10, 32)\<close>. A call with
  length 0 returns BadIndexRangeNoData whatever the string. For a positive length: a range
  \<open>lo:hi\<close> whose parts parse to \<open>lo\<close> and \<open>hi\<close> returns BadIndexRangeInvalid when
  \<open>lo < 0\<close>, \<open>hi < 0\<close> or \<open>lo \<ge> hi\<close>, BadIndexRangeNoData when \<open>lo \<ge> length\<close>, and
  otherwise \<open>(lo, min hi (length - 1) + 1, Good)\<close>: \<open>hi\<close> is clamped to \<open>length - 1\<close> and
  the pair is end-exclusive. A single index that parses to \<open>lo\<close> returns
  BadIndexRangeInvalid when negative, BadIndexRangeNoData when \<open>lo \<ge> length\<close>, and
  \<open>(lo, lo + 1, Good)\<close> otherwise. An index that does not parse as a signed 32-bit decimal
  (so also one of 2^31 or more) returns BadIndexRangeInvalid. The five boundary examples
  of the specification hold.
\<close>

theorem parseBounds_index_range_rules:
  fixes s :: string and len lo hi :: int and i :: nat
  shows "parseBounds s 0 = (-1, -1, BadIndexRangeNoData)
    \<and> (0 < len \<and> Index s CHR '':'' = Some i
         \<and> ParseInt (take i s) 32 = Some lo \<and> ParseInt (drop (i + 1) s) 32 = Some hi \<longrightarrow>
         parseBounds s len =
           (if lo < 0 \<or> hi < 0 \<or> hi \<le> lo then (-1, -1, BadIndexRangeInvalid)
            else if len \<le> lo then (-1, -1, BadIndexRangeNoData)
            else (lo, min hi (len - 1) + 1, Good)))
    \<and> (0 < len \<and> Index s CHR '':'' = None \<and> ParseInt s 32 = Some lo \<longrightarrow>
         parseBounds s len =
           (if lo < 0 then (-1, -1, BadIndexRangeInvalid)
            else if len \<le> lo then (-1, -1, BadIndexRangeNoData)
            else (lo, lo + 1, Good)))
    \<and> (0 < len \<and> Index s CHR '':'' = Some i
         \<and> (ParseInt (take i s) 32 = None \<or> ParseInt (drop (i + 1) s) 32 = None) \<longrightarrow>
         parseBounds s len = (-1, -1, BadIndexRangeInvalid))
    \<and> (0 < len \<and> s \<noteq> [] \<and> Index s CHR '':'' = None \<and> ParseInt s 32 = None \<longrightarrow>
         parseBounds s len = (-1, -1, BadIndexRangeInvalid))
    \<and> parseBounds ''5:5'' 10 = (-1, -1, BadIndexRangeInvalid)
    \<and> parseBounds ''5:4'' 10 = (-1, -1, BadIndexRangeInvalid)
    \<and> parseBounds ''10'' 10 = (-1, -1, BadIndexRangeNoData)
    \<and> parseBounds [] 0 = (-1, -1, BadIndexRangeNoData)
    \<and> parseBounds ''3:100'' 10 = (3, 10, Good)"
proof -
  have zero: "parseBounds s 0 = (-1, -1, BadIndexRangeNoData)"
    by (simp add: parseBounds_def)
  have range: "parseBounds s len =
           (if lo < 0 \<or> hi < 0 \<or> hi \<le> lo then (-1, -1, BadIndexRangeInvalid)
            else if len \<le> lo then (-1, -1, BadIndexRangeNoData)
            else (lo, min hi (len - 1) + 1, Good))"
    if "0 < len" "Index s CHR '':'' = Some i" "ParseInt (take i s) 32 = Some lo"
       "ParseInt (drop (i + 1) s) 32 = Some hi"
    using that Index_Some_nonempty [OF that(2)]
    by (auto simp: parseBounds_def parseBounds_finish_def Let_def min_def)
  have single: "parseBounds s len =
           (if lo < 0 then (-1, -1, BadIndexRangeInvalid)
            else if len \<le> lo then (-1, -1, BadIndexRangeNoData)
            else (lo, lo + 1, Good))"
    if "0 < len" "Index s CHR '':'' = None" "ParseInt s 32 = Some lo"
  proof -
    from that(3) have "s \<noteq> []" by (auto simp: ParseInt_def)
    with that show ?thesis
      by (auto simp: parseBounds_def parseBounds_finish_def Let_def)
  qed
  have bad_range: "parseBounds s len = (-1, -1, BadIndexRangeInvalid)"
    if "0 < len" "Index s CHR '':'' = Some i"
       "ParseInt (take i s) 32 = None \<or> ParseInt (drop (i + 1) s) 32 = None"
    using that Index_Some_nonempty [OF that(2)]
    by (auto simp: parseBounds_def split: option.splits)
  have bad_single: "parseBounds s len = (-1, -1, BadIndexRangeInvalid)"
    if "0 < len" "s \<noteq> []" "Index s CHR '':'' = None" "ParseInt s 32 = None"
    using that by (simp add: parseBounds_def)
  have e1: "parseBounds ''5:5'' 10 = (-1, -1, BadIndexRangeInvalid)"
    by (simp add: parse_eval)
  have e2: "parseBounds ''5:4'' 10 = (-1, -1, BadIndexRangeInvalid)"
    by (simp add: parse_eval)
  have e3: "parseBounds ''10'' 10 = (-1, -1, BadIndexRangeNoData)"
    by (simp add: parse_eval)
  have e4: "parseBounds [] 0 = (-1, -1, BadIndexRangeNoData)"
    by (simp add: parse_eval)
  have e5: "parseBounds ''3:100'' 10 = (3, 10, Good)"
    by (simp add: parse_eval)
  from zero range single bad_range bad_single e1 e2 e3 e4 e5 show ?thesis
    by blast
qed

text \<open>The rules at the range \<open>3:100\<close> and at the single index \<open>12\<close>, for length 10.\<close>

theorem parseBounds_index_range_rules_witness:
  "(0::int) < 10 \<and> Index ''3:100'' CHR '':'' = Some 1
   \<and> ParseInt (take 1 ''3:100'') 32 = Some 3 \<and> ParseInt (drop (1 + 1) ''3:100'') 32 = Some 100
   \<and> parseBounds ''3:100'' 10 =
       (if (3::int) < 0 \<or> (100::int) < 0 \<or> (100::int) \<le> 3 then (-1, -1, BadIndexRangeInvalid)
        else if (10::int) \<le> 3 then (-1, -1, BadIndexRangeNoData)
        else (3, min 100 (10 - 1) + 1, Good))
   \<and> Index ''12'' CHR '':'' = None \<and> ParseInt ''12'' 32 = Some 12
   \<and> parseBounds ''12'' 10 =
       (if (12::int) < 0 then (-1, -1, BadIndexRangeInvalid)
        else if (10::int) \<le> 12 then (-1, -1, BadIndexRangeNoData)
        else (12, 12 + 1, Good))"
proof -
  have h1: "(0::int) < 10 \<and> Index ''3:100'' CHR '':'' = Some 1
   \<and> ParseInt (take 1 ''3:100'') 32 = Some 3 \<and> ParseInt (drop (1 + 1) ''3:100'') 32 = Some 100"
    by (simp add: ParseInt_def isDigit_def digitVal_def)
  have h2: "(0::int) < 10 \<and> Index ''12'' CHR '':'' = None \<and> ParseInt ''12'' 32 = Some 12"
    by (simp add: ParseInt_def isDigit_def digitVal_def)
  from h1 h2 parseBounds_index_range_rules [of "''3:100''" 10 1 3 100]
       parseBounds_index_range_rules [of "''12''" 10 0 12 0]
  show ?thesis by blast
qed

text \<open>
  The claim as stated fails for an index beyond the signed 32-bit range: the single index
  3000000000 is at least the length 10, yet the status is BadIndexRangeInvalid, not
  BadIndexRangeNoData.
\<close>

theorem parseBounds_uint32_index_counterexample:
  "Index ''3000000000'' CHR '':'' = None
   \<and> digitsVal 0 ''3000000000'' = 3000000000
   \<and> (10::int) \<le> 3000000000
   \<and> parseBounds ''3000000000'' 10 = (-1, -1, BadIndexRangeInvalid)
   \<and> parseBounds ''3000000000'' 10 \<noteq> (-1, -1, BadIndexRangeNoData)"
  by (simp add: parse_eval)

subsection \<open>Node identifiers: printing and parsing\<close>

lemma digitChar_props:
  assumes "d < 10"
  shows "isDigit (digitChar d)" and "digitVal (digitChar d) = d" and "digitChar d \<noteq> CHR '';''"
proof -
  have a: "of_char (digitChar d) = (48 + d :: nat)"
    using assms by (simp add: digitChar_def)
  show "isDigit (digitChar d)" using assms by (simp add: isDigit_def a)
  show "digitVal (digitChar d) = d" by (simp add: digitVal_def a)
  show "digitChar d \<noteq> CHR '';''"
  proof
    assume "digitChar d = CHR '';''"
    then have "(of_char (digitChar d) :: nat) = of_char CHR '';''" by simp
    with a assms show False by simp
  qed
qed

lemma digitsVal_snoc: "digitsVal acc (xs @ [c]) = digitsVal acc xs * 10 + digitVal c"
  by (induction xs arbitrary: acc) auto

lemma showNat_nonempty: "showNat n \<noteq> []"
  by (subst showNat.simps) simp

lemma showNat_digits: "list_all isDigit (showNat n)"
proof (induction n rule: showNat.induct)
  case (1 n)
  show ?case
  proof (cases "n < 10")
    case True
    then show ?thesis by (subst showNat.simps) (simp add: digitChar_props)
  next
    case False
    with 1 show ?thesis by (subst showNat.simps) (simp add: digitChar_props)
  qed
qed

lemma showNat_no_semicolon: "CHR '';'' \<notin> set (showNat n)"
proof (induction n rule: showNat.induct)
  case (1 n)
  show ?case
  proof (cases "n < 10")
    case True
    then show ?thesis using digitChar_props(3) [of n] by (subst showNat.simps) auto
  next
    case False
    with 1 show ?thesis using digitChar_props(3) [of "n mod 10"]
      by (subst showNat.simps) auto
  qed
qed

lemma digitsVal_showNat: "digitsVal 0 (showNat n) = n"
proof (induction n rule: showNat.induct)
  case (1 n)
  show ?case
  proof (cases "n < 10")
    case True
    then show ?thesis by (subst showNat.simps) (simp add: digitChar_props)
  next
    case False
    with 1 show ?thesis
      by (subst showNat.simps) (simp add: digitsVal_snoc digitChar_props)
  qed
qed

lemma ParseUint_showNat: "n < 2 ^ b \<Longrightarrow> ParseUint (showNat n) b = Some n"
  by (simp add: ParseUint_def showNat_nonempty showNat_digits digitsVal_showNat)

lemma Index_append_sep: "c \<notin> set xs \<Longrightarrow> Index (xs @ c # ys) c = Some (length xs)"
  by (induction xs) auto

lemma Index_ns_prefix:
  "Index (''ns='' @ showNat n @ CHR '';'' # rest) CHR '';'' = Some (3 + length (showNat n))"
  using Index_append_sep [of "CHR '';''" "showNat n" rest] showNat_no_semicolon [of n]
  by simp

lemma ParseNodeIDString_ns:
  assumes "n < 2 ^ 16"
  shows "ParseNodeIDString L (''ns='' @ showNat n @ CHR '';'' # rest) = ParseNodeIDString_id L n rest"
  using assms Index_ns_prefix [of n rest]
  by (simp add: ParseNodeIDString_def HasPrefix_def ParseUint_showNat)

lemma unat16_lt: "unat (w :: 16 word) < 2 ^ 16"
  using unsigned_less [of w] by simp

lemma unat32_lt: "unat (w :: 32 word) < 2 ^ 32"
  using unsigned_less [of w] by simp

lemma decimal_extlib_uuid: "uuid_Parse decimal_extlib (uuid_String decimal_extlib g) = Some g"
proof -
  have "unat g < 2 ^ 128" using unsigned_less [of g] by simp
  then show ?thesis
    using ParseUint_showNat [of "unat g" 128] by (simp add: decimal_extlib_def)
qed

lemma decimal_extlib_base64:
  "base64_DecodeString decimal_extlib (base64_EncodeToString decimal_extlib b) = Some b"
proof -
  have one: "of_nat (of_char (char_of (unat w))) = w" for w :: byte
  proof -
    have "unat w < 256" using unsigned_less [of w] by simp
    then have "(of_char (char_of (unat w)) :: nat) = unat w" by (simp only: of_char_of mod_less)
    then show ?thesis by simp
  qed
  have "map (\<lambda>c. of_nat (of_char c)) (map (\<lambda>w. char_of (unat w)) b) = b"
    by (induction b) (simp_all only: list.map one)
  then show ?thesis by (simp only: decimal_extlib_def extlib.simps)
qed

text \<open>
  C5 (amended). For a library whose UUID and base64 printing and parsing are inverse to
  each other, and for every NodeId of the four variants and every namespace index, other
  than the numeric NodeId 0 of namespace 0: \<open>ParseNodeIDString\<close> applied to the
  \<open>String()\<close> form returns the NodeId.
\<close>

theorem ParseNodeIDString_String_roundtrip:
  assumes "\<forall>g. uuid_Parse L (uuid_String L g) = Some g"
    and "\<forall>b. base64_DecodeString L (base64_EncodeToString L b) = Some b"
    and "n \<noteq> NodeIDNumeric 0 0"
  shows "ParseNodeIDString L (NodeID_String L n) = Some n"
proof (cases n)
  case (NodeIDNumeric ns i)
  show ?thesis
  proof (cases "ns = 0")
    case True
    with NodeIDNumeric assms(3) have "i \<noteq> 0" by simp
    then have "unat i \<noteq> 0" by (simp add: unat_eq_0)
    with True NodeIDNumeric show ?thesis
      using ParseUint_showNat [OF unat32_lt, of i]
      by (simp add: ParseNodeIDString_def ParseNodeIDString_id_def HasPrefix_def)
  next
    case False
    then have "unat ns \<noteq> 0" by (simp add: unat_eq_0)
    with False NodeIDNumeric show ?thesis
      using ParseNodeIDString_ns [OF unat16_lt, of L ns "''i='' @ showNat (unat i)"]
        ParseUint_showNat [OF unat32_lt, of i]
      by (simp add: ParseNodeIDString_id_def HasPrefix_def)
  qed
next
  case (NodeIDString ns s)
  show ?thesis
  proof (cases "ns = 0")
    case True
    with NodeIDString show ?thesis
      by (simp add: ParseNodeIDString_def ParseNodeIDString_id_def HasPrefix_def)
  next
    case False
    with NodeIDString show ?thesis
      using ParseNodeIDString_ns [OF unat16_lt, of L ns "''s='' @ s"]
      by (simp add: ParseNodeIDString_id_def HasPrefix_def)
  qed
next
  case (NodeIDGUID ns g)
  show ?thesis
  proof (cases "ns = 0")
    case True
    with NodeIDGUID assms(1) show ?thesis
      by (simp add: ParseNodeIDString_def ParseNodeIDString_id_def HasPrefix_def)
  next
    case False
    with NodeIDGUID assms(1) show ?thesis
      using ParseNodeIDString_ns [OF unat16_lt, of L ns "''g='' @ uuid_String L g"]
      by (simp add: ParseNodeIDString_id_def HasPrefix_def)
  qed
next
  case (NodeIDOpaque ns b)
  show ?thesis
  proof (cases "ns = 0")
    case True
    with NodeIDOpaque assms(2) show ?thesis
      by (simp add: ParseNodeIDString_def ParseNodeIDString_id_def HasPrefix_def)
  next
    case False
    with NodeIDOpaque assms(2) show ?thesis
      using ParseNodeIDString_ns [OF unat16_lt, of L ns "''b='' @ base64_EncodeToString L b"]
      by (simp add: ParseNodeIDString_id_def HasPrefix_def)
  qed
qed

text \<open>The round trip at the string NodeId \<open>ns=2;s=Demo\<close> and at the numeric \<open>ns=2;i=85\<close>.\<close>

theorem ParseNodeIDString_String_roundtrip_witness:
  "(\<forall>g. uuid_Parse decimal_extlib (uuid_String decimal_extlib g) = Some g)
   \<and> (\<forall>b. base64_DecodeString decimal_extlib (base64_EncodeToString decimal_extlib b) = Some b)
   \<and> NodeIDString 2 ''Demo'' \<noteq> NodeIDNumeric 0 0
   \<and> NodeIDNumeric 2 85 \<noteq> NodeIDNumeric 0 0
   \<and> ParseNodeIDString decimal_extlib (NodeID_String decimal_extlib (NodeIDString 2 ''Demo''))
       = Some (NodeIDString 2 ''Demo'')
   \<and> ParseNodeIDString decimal_extlib (NodeID_String decimal_extlib (NodeIDNumeric 2 85))
       = Some (NodeIDNumeric 2 85)"
proof -
  have h1: "\<forall>g. uuid_Parse decimal_extlib (uuid_String decimal_extlib g) = Some g"
    by (simp add: decimal_extlib_uuid)
  have h2: "\<forall>b. base64_DecodeString decimal_extlib (base64_EncodeToString decimal_extlib b) = Some b"
    by (simp add: decimal_extlib_base64)
  have h3: "NodeIDString 2 ''Demo'' \<noteq> NodeIDNumeric 0 0" by simp
  have h4: "NodeIDNumeric 2 85 \<noteq> NodeIDNumeric 0 0" by simp
  from h1 h2 h3 h4 ParseNodeIDString_String_roundtrip [OF h1 h2 h3]
    ParseNodeIDString_String_roundtrip [OF h1 h2 h4]
  show ?thesis by blast
qed

text \<open>
  The claim as stated fails at the null NodeId: the numeric NodeId 0 of namespace 0 prints
  as \<open>i=0\<close>, which \<open>ParseNodeIDString\<close> rejects by its guard \<open>id == 0 && ns == 0\<close>.
\<close>

theorem null_NodeID_counterexample:
  "NodeID_String decimal_extlib (NodeIDNumeric 0 0) = ''i=0''
   \<and> ParseNodeIDString decimal_extlib (NodeID_String decimal_extlib (NodeIDNumeric 0 0)) = None
   \<and> ParseNodeIDString decimal_extlib (NodeID_String decimal_extlib (NodeIDNumeric 0 0))
       \<noteq> Some (NodeIDNumeric 0 0)"
  by (simp add: showNat.simps digitChar_def char_of_def bit_simps ParseNodeIDString_def
      ParseNodeIDString_id_def HasPrefix_def ParseUint_def isDigit_def digitVal_def)

subsection \<open>Expanded node identifiers\<close>

text \<open>
  C9. The claim asks that \<open>ParseExpandedNodeID\<close> returns a value for every string. On a
  string whose NodeId part does not parse, \<open>ParseNodeID\<close> returns \<open>nil\<close> and the call
  \<open>nodeId.GetIDType()\<close> panics: so for \<open>nsu=uri;x=1\<close>, for \<open>x=1\<close> and for the empty
  string, whatever the library.
\<close>

theorem ParseExpandedNodeID_panics_on_unparsed_NodeID:
  "ParseExpandedNodeID L ''nsu=uri;x=1'' = Inl NilPointerDereference
   \<and> ParseExpandedNodeID L ''x=1'' = Inl NilPointerDereference
   \<and> ParseExpandedNodeID L [] = Inl NilPointerDereference"
  by (simp add: ParseExpandedNodeID_def ParseExpandedNodeID_nsu_def ParseExpandedNodeID_id_def
      ParseNodeID_def ParseNodeIDString_def ParseNodeIDString_id_def HasPrefix_def)

subsection \<open>Writing a range and reading it back\<close>

lemma parseBounds_finish_in_range:
  assumes "parseBounds_finish lo hi n = (i, j, st)" and "\<not> IsBad st"
    and "hi = -1 \<or> (0 \<le> hi \<and> lo < hi)"
  shows "0 \<le> i \<and> i \<le> j \<and> j \<le> n \<and> st = Good"
  using assms
  by (auto simp: parseBounds_finish_def Let_def split: if_splits)

lemma parseBounds_in_range:
  assumes "parseBounds s n = (i, j, st)" and "\<not> IsBad st" and "0 \<le> n"
  shows "0 \<le> i \<and> i \<le> j \<and> j \<le> n \<and> st = Good"
proof (cases "n = 0 \<or> s = []")
  case True
  with assms show ?thesis by (auto simp: parseBounds_def split: if_splits)
next
  case False
  show ?thesis
  proof (cases "Index s CHR '':''")
    case None
    with False assms show ?thesis
      by (auto simp: parseBounds_def split: option.splits dest: parseBounds_finish_in_range)
  next
    case (Some a)
    with False assms show ?thesis
      by (auto simp: parseBounds_def split: option.splits if_splits
          dest: parseBounds_finish_in_range)
  qed
qed

lemma rangeBounds_in_range:
  "rangeBounds ranges m n = Inr (i, j) \<Longrightarrow> 0 \<le> i \<and> i \<le> j \<and> j \<le> int n"
  by (auto simp: rangeBounds_def split: if_splits prod.splits dest: parseBounds_in_range)

lemma length_splice:
  "0 \<le> i \<Longrightarrow> i \<le> j \<Longrightarrow> j \<le> int (length v1) \<Longrightarrow> j - i = int (length v2)
   \<Longrightarrow> length (splice v1 i j v2) = length v1"
  by (simp add: splice_def)

lemma slice_splice:
  "0 \<le> i \<Longrightarrow> i \<le> j \<Longrightarrow> j \<le> int (length v1) \<Longrightarrow> j - i = int (length v2)
   \<Longrightarrow> slice (splice v1 i j v2) i j = v2"
  by (simp add: splice_def slice_def)

lemma writeCopy_readFirst:
  assumes "rangeBounds ranges m (length src) = Inr b" and "writeCopy src b v2 = Inr dst"
  shows "length dst = length src \<and> readFirst ranges m dst = Inr v2"
proof -
  obtain i j where b: "b = (i, j)" by (cases b)
  from assms(1) b have r: "0 \<le> i \<and> i \<le> j \<and> j \<le> int (length src)"
    by (auto dest: rangeBounds_in_range)
  from assms(2) b have w: "j - i = int (length v2)" "dst = splice src i j v2"
    by (auto simp: writeCopy_def split: if_splits)
  from r w have len: "length dst = length src" by (simp add: length_splice)
  from r w have "slice dst i j = v2" by (simp add: slice_splice)
  with assms(1) b len show ?thesis by (simp add: readFirst_def)
qed

lemma Split_no_sep: "c \<notin> set r \<Longrightarrow> Split r c = [r]"
  by (induction r) auto


lemma rangeBounds_Inl_not_Good: "rangeBounds ranges m n = Inl st \<Longrightarrow> st \<noteq> Good"
  by (auto simp: rangeBounds_def split: if_splits prod.splits)

lemma writeResult_Good:
  assumes "writeResult now1 now2 w mk (writeCopy src b v2) = Inr (res, Good)"
  shows "\<exists>dst. writeCopy src b v2 = Inr dst
           \<and> res = NewDataValue (mk dst) (StatusCode w) now1 0 now2 0"
  using assms
  by (cases "writeCopy src b v2")
     (auto simp: writeResult_def writeCopy_def split: prod.splits if_splits)

lemma roundtrip_flat:
  assumes b: "rangeBounds ranges 1 (length src) = Inr b"
    and w: "writeResult now1 now2 w mk (writeCopy src b v2) = Inr (res, Good)"
  shows "\<exists>dst. res = NewDataValue (mk dst) (StatusCode w) now1 0 now2 0
           \<and> readFirst ranges 1 dst = Inr v2"
proof -
  from writeResult_Good [OF w] obtain dst where
    d: "writeCopy src b v2 = Inr dst" "res = NewDataValue (mk dst) (StatusCode w) now1 0 now2 0"
    by blast
  from writeCopy_readFirst [OF b d(1)] d(2) show ?thesis by blast
qed

lemma roundtrip_nested:
  assumes b: "rangeBounds ranges 2 (length src) = Inr b"
    and w: "writeResult now1 now2 w mk (writeCopy src b v2) = Inr (res, Good)"
    and one: "length ranges = 1"
  shows "\<exists>dst. res = NewDataValue (mk dst) (StatusCode w) now1 0 now2 0
           \<and> readNested ranges dst = Inr v2"
proof -
  from writeResult_Good [OF w] obtain dst where
    d: "writeCopy src b v2 = Inr dst" "res = NewDataValue (mk dst) (StatusCode w) now1 0 now2 0"
    by blast
  from writeCopy_readFirst [OF b d(1)] have "readFirst ranges 2 dst = Inr v2" by simp
  with one have "readNested ranges dst = Inr v2" by (simp add: readNested_def)
  with d(2) show ?thesis by blast
qed

text \<open>
  Where \<open>writeRange\<close> applies every range it admits, the value written is read back:
  whenever \<open>writeRange(v, w, r)\<close> returns status Good, and the range \<open>r\<close> has a single
  dimension (no comma) or \<open>v\<close> is not an array of String or of ByteString,
  \<open>readRange(result, r)\<close> returns the value and the status code of \<open>w\<close>, stamped with the
  two times that \<open>writeRange\<close> took from the clock.
\<close>

lemma writeRange_readRange_roundtrip:
  assumes wr: "writeRange now1 now2 v w r = Inr (res, Good)"
    and dim: "CHR '','' \<notin> set r
              \<or> (\<forall>src. Value v \<noteq> VStrings src \<and> Value v \<noteq> VByteStrings src)"
  shows "readRange res r = NewDataValue (Value w) (StatusCode w) now1 0 now2 0"
proof (cases "r = []")
  case True
  with wr show ?thesis by (auto simp: writeRange_def readRange_def)
next
  case False
  let ?ranges = "Split r CHR '',''"
  show ?thesis
  proof (cases "Value v")
    case (VString src)
    with wr False obtain b v2 where
      b: "rangeBounds ?ranges 1 (length src) = Inr b" and v2: "Value w = VString v2"
      and w: "writeResult now1 now2 w VString (writeCopy src b v2) = Inr (res, Good)"
      by (auto simp: writeRange_def Let_def split: sum.splits variant.splits
          dest: rangeBounds_Inl_not_Good)
    from roundtrip_flat [OF b w] v2 False show ?thesis
      by (auto simp: readRange_def NewDataValue_def Let_def)
  next
    case (VByteString src)
    with wr False obtain b v2 where
      b: "rangeBounds ?ranges 1 (length src) = Inr b" and v2: "Value w = VByteString v2"
      and w: "writeResult now1 now2 w VByteString (writeCopy src b v2) = Inr (res, Good)"
      by (auto simp: writeRange_def Let_def split: sum.splits variant.splits
          dest: rangeBounds_Inl_not_Good)
    from roundtrip_flat [OF b w] v2 False show ?thesis
      by (auto simp: readRange_def NewDataValue_def Let_def)
  next
    case (VArray t src)
    with wr False obtain b v2 where
      b: "rangeBounds ?ranges 1 (length src) = Inr b" and v2: "Value w = VArray t v2"
      and w: "writeResult now1 now2 w (VArray t) (writeCopy src b v2) = Inr (res, Good)"
      by (auto simp: writeRange_def Let_def split: sum.splits variant.splits if_splits
          dest: rangeBounds_Inl_not_Good)
    from roundtrip_flat [OF b w] v2 False show ?thesis
      by (auto simp: readRange_def NewDataValue_def Let_def)
  next
    case (VStrings src)
    with dim have one: "length ?ranges = 1" by (simp add: Split_no_sep)
    from VStrings wr False obtain b v2 where
      b: "rangeBounds ?ranges 2 (length src) = Inr b" and v2: "Value w = VStrings v2"
      and w: "writeResult now1 now2 w VStrings (writeCopy src b v2) = Inr (res, Good)"
      by (auto simp: writeRange_def Let_def split: sum.splits variant.splits
          dest: rangeBounds_Inl_not_Good)
    from roundtrip_nested [OF b w one] v2 False show ?thesis
      by (auto simp: readRange_def NewDataValue_def Let_def)
  next
    case (VByteStrings src)
    with dim have one: "length ?ranges = 1" by (simp add: Split_no_sep)
    from VByteStrings wr False obtain b v2 where
      b: "rangeBounds ?ranges 2 (length src) = Inr b" and v2: "Value w = VByteStrings v2"
      and w: "writeResult now1 now2 w VByteStrings (writeCopy src b v2) = Inr (res, Good)"
      by (auto simp: writeRange_def Let_def split: sum.splits variant.splits
          dest: rangeBounds_Inl_not_Good)
    from roundtrip_nested [OF b w one] v2 False show ?thesis
      by (auto simp: readRange_def NewDataValue_def Let_def)
  next
    case VNil
    with wr False show ?thesis by (simp add: writeRange_def)
  next
    case (VScalar t a)
    with wr False show ?thesis by (simp add: writeRange_def)
  next
    case VOther
    with wr False show ?thesis by (simp add: writeRange_def)
  qed
qed


lemmas range_eval = writeRange_def readRange_def rangeBounds_def readFirst_def readNested_def
  writeCopy_def writeResult_def slice_def splice_def NewDataValue_def NilDataValue_def Let_def

text \<open>The round trip at the array \<open>[1, 2, 3]\<close>, the incoming \<open>[9, 9]\<close> and the range \<open>1:100\<close>.\<close>

lemma writeRange_readRange_roundtrip_example:
  "writeRange 7 8 (NewDataValue (VArray Gint32 [1, 2, 3]) Good 1 0 1 0)
       (NewDataValue (VArray Gint32 [9, 9]) Good 0 0 0 0) ''1:100''
     = Inr (NewDataValue (VArray Gint32 [1, 9, 9]) Good 7 0 8 0, Good)
   \<and> readRange (NewDataValue (VArray Gint32 [1, 9, 9]) Good 7 0 8 0) ''1:100''
     = NewDataValue (VArray Gint32 [9, 9]) Good 7 0 8 0"
  by (simp add: range_eval parse_eval)

text \<open>
  C4. The claim is that \<open>readRange(result, r)\<close> returns the incoming value \<open>w\<close> whenever
  \<open>writeRange(v, w, r)\<close> returns status Good. The code does not do that for a range of two
  dimensions on an array of String or of ByteString: \<open>writeRange\<close> admits the two ranges
  and applies only the first, to the array, while \<open>readRange\<close> applies the second to
  every element. Writing \<open>["XY", "ZW"]\<close> over \<open>["abc", "def"]\<close> with the range \<open>0:1,0\<close>
  returns Good and stores \<open>["XY", "ZW"]\<close>; reading \<open>0:1,0\<close> back gives \<open>["X", "Z"]\<close>.
  The same holds for an array of ByteString, and a Write request on the Value attribute
  of a String array variable reaches that call of \<open>writeRange\<close> with status Good.
\<close>

theorem writeRange_ignores_second_range:
  "writeRange 7 7 (NewDataValue (VStrings [[97, 98, 99], [100, 101, 102]]) Good 1 0 1 0)
       (NewDataValue (VStrings [[88, 89], [90, 87]]) Good 0 0 0 0) ''0:1,0''
     = Inr (NewDataValue (VStrings [[88, 89], [90, 87]]) Good 7 0 7 0, Good)
   \<and> Value (readRange (NewDataValue (VStrings [[88, 89], [90, 87]]) Good 7 0 7 0) ''0:1,0'')
     = VStrings [[88], [90]]
   \<and> Value (readRange (NewDataValue (VStrings [[88, 89], [90, 87]]) Good 7 0 7 0) ''0:1,0'')
     \<noteq> Value (NewDataValue (VStrings [[88, 89], [90, 87]]) Good 0 0 0 0)
   \<and> writeRange 7 7 (NewDataValue (VByteStrings [[1, 2, 3], [4, 5, 6]]) Good 1 0 1 0)
       (NewDataValue (VByteStrings [[7, 8], [9, 10]]) Good 0 0 0 0) ''0:1,0''
     = Inr (NewDataValue (VByteStrings [[7, 8], [9, 10]]) Good 7 0 7 0, Good)
   \<and> Value (readRange (NewDataValue (VByteStrings [[7, 8], [9, 10]]) Good 7 0 7 0) ''0:1,0'')
     = VByteStrings [[7], [9]]
   \<and> writeValue opcua_decls
        (demo_server (demo_variable (VStrings [[97, 98, 99], [100, 101, 102]])
                        (NodeIDNumeric 0 12) 1 3))
        (demo_ctx 65) 7 7
        ((demo_write (VStrings [[88, 89], [90, 87]]))\<lparr>wv_IndexRange := ''0:1,0''\<rparr>)
     = Inr (Good,
            SetValue (demo_server (demo_variable (VStrings [[97, 98, 99], [100, 101, 102]])
                                     (NodeIDNumeric 0 12) 1 3))
              (NodeIDString 2 ''Demo'')
              (demo_variable (VStrings [[97, 98, 99], [100, 101, 102]]) (NodeIDNumeric 0 12) 1 3)
              (NewDataValue (VStrings [[88, 89], [90, 87]]) Good 7 0 7 0))"
  by (simp add: range_eval parse_eval writeValue_def writeValue_Value_def checkValue_def
      checkArray_def convertBytes_def demo_write_def demo_eval access_eval)

subsection \<open>The project manager\<close>

lemma Fire_ERROR_iff:
  assumes "Fire load t args p = Inr (r, p')" and "state p' = PROJECT_STATE_ERROR"
  shows "(state p = PROJECT_STATE_ERROR \<and> p' = p)
         \<or> (\<exists>e. state p = PROJECT_STATE_LOADING \<and> t = triggerErrorOccured
                \<and> currentError p' = Some e \<and> hd args = e \<and> args \<noteq> [])"
  using assms
  by (cases "state p"; cases t)
     (auto simp: Fire_def split: list.splits)

lemma reachable_ERROR_recorded:
  "reachable p \<Longrightarrow> state p = PROJECT_STATE_ERROR \<Longrightarrow> \<exists>e. currentError p = Some e"
proof (induction rule: reachable.induct)
  case reachable_new
  then show ?case by (simp add: NewProjectManager_def)
next
  case (reachable_Fire p load t args r p')
  from Fire_ERROR_iff [OF reachable_Fire(2) reachable_Fire(4)] reachable_Fire(3)
  show ?case by auto
qed

text \<open>
  C7 (amended). The state machine permits exactly the transitions Unloaded to Loading
  (LoadProject), Loading to Loaded (LoadSuccess), Loading to Error (ErrorOccured), Loaded
  to Reload and Error to Reload (ReloadProject), Reload to Loading (LoadProject), and
  the internal transitions LoadPlugins, UnloadPlugins and ReloadPlugins in Loaded only.
  The trigger ErrorOccured leads to the Error state, recording its argument, from Loading;
  in every other state it is not handled: \<open>Fire\<close> returns an error and the manager is
  unchanged.
\<close>

theorem state_machine_transitions:
  "(configuration s t = Some (Permit d) \<longleftrightarrow>
      (s, t, d) \<in> {(PROJECT_STATE_UNLOADED, triggerLoadProject, PROJECT_STATE_LOADING),
                   (PROJECT_STATE_LOADING, triggerLoadSuccess, PROJECT_STATE_LOADED),
                   (PROJECT_STATE_LOADING, triggerErrorOccured, PROJECT_STATE_ERROR),
                   (PROJECT_STATE_LOADED, triggerReloadProject, PROJECT_STATE_RELOAD),
                   (PROJECT_STATE_ERROR, triggerReloadProject, PROJECT_STATE_RELOAD),
                   (PROJECT_STATE_RELOAD, triggerLoadProject, PROJECT_STATE_LOADING)})
   \<and> (configuration s t = Some InternalTransition \<longleftrightarrow>
        s = PROJECT_STATE_LOADED
        \<and> t \<in> {triggerLoadPlugins, triggerUnloadPlugins, triggerReloadPlugins})
   \<and> (state p = PROJECT_STATE_LOADING \<longrightarrow>
        Fire load triggerErrorOccured (e # es) p
          = Inr (None, p\<lparr>state := PROJECT_STATE_ERROR, currentError := Some e\<rparr>))
   \<and> (state p \<noteq> PROJECT_STATE_LOADING \<longrightarrow>
        Fire load triggerErrorOccured (e # es) p
          = Inr (Some (ErrUnhandledTrigger (state p) triggerErrorOccured), p))"
proof -
  have a: "configuration s t = Some (Permit d) \<longleftrightarrow>
      (s, t, d) \<in> {(PROJECT_STATE_UNLOADED, triggerLoadProject, PROJECT_STATE_LOADING),
                   (PROJECT_STATE_LOADING, triggerLoadSuccess, PROJECT_STATE_LOADED),
                   (PROJECT_STATE_LOADING, triggerErrorOccured, PROJECT_STATE_ERROR),
                   (PROJECT_STATE_LOADED, triggerReloadProject, PROJECT_STATE_RELOAD),
                   (PROJECT_STATE_ERROR, triggerReloadProject, PROJECT_STATE_RELOAD),
                   (PROJECT_STATE_RELOAD, triggerLoadProject, PROJECT_STATE_LOADING)}"
    by (cases s; cases t) auto
  have b: "configuration s t = Some InternalTransition \<longleftrightarrow>
        s = PROJECT_STATE_LOADED
        \<and> t \<in> {triggerLoadPlugins, triggerUnloadPlugins, triggerReloadPlugins}"
    by (cases s; cases t) auto
  have c: "Fire load triggerErrorOccured (e # es) p
          = Inr (None, p\<lparr>state := PROJECT_STATE_ERROR, currentError := Some e\<rparr>)"
    if "state p = PROJECT_STATE_LOADING"
    using that by (simp add: Fire_def)
  have d: "Fire load triggerErrorOccured (e # es) p
          = Inr (Some (ErrUnhandledTrigger (state p) triggerErrorOccured), p)"
    if "state p \<noteq> PROJECT_STATE_LOADING"
    using that by (cases "state p") (simp_all add: Fire_def)
  from a b c d show ?thesis by blast
qed

text \<open>The two rules for ErrorOccured, in the states Loading and Reload.\<close>

theorem state_machine_transitions_witness:
  "state \<lparr>state = PROJECT_STATE_LOADING, currentError = None\<rparr> = PROJECT_STATE_LOADING
   \<and> Fire None triggerErrorOccured [ErrLoad ''no file'']
         \<lparr>state = PROJECT_STATE_LOADING, currentError = None\<rparr>
       = Inr (None, \<lparr>state = PROJECT_STATE_LOADING, currentError = None\<rparr>
                     \<lparr>state := PROJECT_STATE_ERROR, currentError := Some (ErrLoad ''no file'')\<rparr>)
   \<and> state \<lparr>state = PROJECT_STATE_RELOAD, currentError = None\<rparr> \<noteq> PROJECT_STATE_LOADING
   \<and> Fire None triggerErrorOccured [ErrLoad ''no file'']
         \<lparr>state = PROJECT_STATE_RELOAD, currentError = None\<rparr>
       = Inr (Some (ErrUnhandledTrigger
                      (state \<lparr>state = PROJECT_STATE_RELOAD, currentError = None\<rparr>)
                      triggerErrorOccured),
              \<lparr>state = PROJECT_STATE_RELOAD, currentError = None\<rparr>)"
proof -
  have h1: "state \<lparr>state = PROJECT_STATE_LOADING, currentError = None\<rparr> = PROJECT_STATE_LOADING"
    by simp
  have h2: "state \<lparr>state = PROJECT_STATE_RELOAD, currentError = None\<rparr> \<noteq> PROJECT_STATE_LOADING"
    by simp
  from h1 h2
    state_machine_transitions [of PROJECT_STATE_LOADING triggerErrorOccured PROJECT_STATE_ERROR
      "\<lparr>state = PROJECT_STATE_LOADING, currentError = None\<rparr>" None "ErrLoad ''no file''" "[]"]
    state_machine_transitions [of PROJECT_STATE_LOADING triggerErrorOccured PROJECT_STATE_ERROR
      "\<lparr>state = PROJECT_STATE_RELOAD, currentError = None\<rparr>" None "ErrLoad ''no file''" "[]"]
  show ?thesis by blast
qed

text \<open>
  The claim as stated fails in every state but Loading. After a successful \<open>Load\<close> the
  manager is in Loaded, where ErrorOccured is not configured: firing it returns an error
  and the state stays Loaded.
\<close>

theorem ErrorOccured_from_Loaded_counterexample:
  "Load None NewProjectManager = Inr \<lparr>state = PROJECT_STATE_LOADED, currentError = None\<rparr>
   \<and> Fire None triggerErrorOccured [ErrLoad ''no file'']
         \<lparr>state = PROJECT_STATE_LOADED, currentError = None\<rparr>
       = Inr (Some (ErrUnhandledTrigger PROJECT_STATE_LOADED triggerErrorOccured),
              \<lparr>state = PROJECT_STATE_LOADED, currentError = None\<rparr>)
   \<and> state \<lparr>state = PROJECT_STATE_LOADED, currentError = None\<rparr> \<noteq> PROJECT_STATE_ERROR
   \<and> configuration PROJECT_STATE_UNLOADED triggerErrorOccured = None
   \<and> configuration PROJECT_STATE_LOADED triggerErrorOccured = None
   \<and> configuration PROJECT_STATE_RELOAD triggerErrorOccured = None
   \<and> configuration PROJECT_STATE_ERROR triggerErrorOccured = None"
  by (simp add: pm_eval)

text \<open>
  C8 (amended). \<open>HasError\<close> returns the recorded error in the Error state,
  \<open>ErrProjectNotLoaded\<close> in the Unloaded state and no error in any other state.
  \<open>GetCurrentError\<close> returns the field \<open>currentError\<close> whatever the state: the error
  recorded by the last entry into the Error state, or none. In a reachable Error state an
  error is recorded and both functions return it, as after ErrorOccured in Loading.
\<close>

theorem error_accessors:
  "HasError p = (if state p = PROJECT_STATE_ERROR then currentError p
                 else if state p = PROJECT_STATE_UNLOADED then Some ErrProjectNotLoaded
                 else None)
   \<and> GetCurrentError p = currentError p
   \<and> (reachable p \<and> state p = PROJECT_STATE_ERROR \<longrightarrow>
        (\<exists>e. GetCurrentError p = Some e \<and> HasError p = Some e))
   \<and> (state p = PROJECT_STATE_LOADING \<longrightarrow>
        (\<exists>p'. Fire load triggerErrorOccured [e] p = Inr (None, p')
              \<and> state p' = PROJECT_STATE_ERROR
              \<and> GetCurrentError p' = Some e \<and> HasError p' = Some e))"
proof -
  have a: "HasError p = (if state p = PROJECT_STATE_ERROR then currentError p
                 else if state p = PROJECT_STATE_UNLOADED then Some ErrProjectNotLoaded
                 else None)"
    by (cases "state p") (simp_all add: HasError_def)
  have b: "GetCurrentError p = currentError p"
    by (simp add: GetCurrentError_def)
  have c: "\<exists>e. GetCurrentError p = Some e \<and> HasError p = Some e"
    if "reachable p" "state p = PROJECT_STATE_ERROR"
    using reachable_ERROR_recorded [OF that] that(2)
    by (auto simp: GetCurrentError_def HasError_def)
  have d: "\<exists>p'. Fire load triggerErrorOccured [e] p = Inr (None, p')
              \<and> state p' = PROJECT_STATE_ERROR
              \<and> GetCurrentError p' = Some e \<and> HasError p' = Some e"
    if "state p = PROJECT_STATE_LOADING"
    using that by (simp add: Fire_def GetCurrentError_def HasError_def)
  from a b c d show ?thesis by blast
qed

lemma reachable_failed_load:
  "reachable \<lparr>state = PROJECT_STATE_ERROR, currentError = Some (ErrLoad ''no file'')\<rparr>"
proof -
  have 1: "reachable \<lparr>state = PROJECT_STATE_LOADING, currentError = None\<rparr>"
    using reachable_Fire [OF reachable_new,
        of "Some (ErrLoad ''no file'')" triggerLoadProject "[]"]
    by (simp add: pm_eval)
  show ?thesis
    using reachable_Fire [OF 1, of None triggerErrorOccured "[ErrLoad ''no file'']"]
    by (simp add: pm_eval)
qed

text \<open>The Error state reached by a failed load, and the step that reaches it.\<close>

theorem error_accessors_witness:
  "reachable \<lparr>state = PROJECT_STATE_ERROR, currentError = Some (ErrLoad ''no file'')\<rparr>
   \<and> state \<lparr>state = PROJECT_STATE_ERROR, currentError = Some (ErrLoad ''no file'')\<rparr>
       = PROJECT_STATE_ERROR
   \<and> (\<exists>e. GetCurrentError \<lparr>state = PROJECT_STATE_ERROR,
                            currentError = Some (ErrLoad ''no file'')\<rparr> = Some e
          \<and> HasError \<lparr>state = PROJECT_STATE_ERROR,
                       currentError = Some (ErrLoad ''no file'')\<rparr> = Some e)
   \<and> state \<lparr>state = PROJECT_STATE_LOADING, currentError = None\<rparr> = PROJECT_STATE_LOADING
   \<and> (\<exists>p'. Fire None triggerErrorOccured [ErrLoad ''no file'']
               \<lparr>state = PROJECT_STATE_LOADING, currentError = None\<rparr> = Inr (None, p')
          \<and> state p' = PROJECT_STATE_ERROR
          \<and> GetCurrentError p' = Some (ErrLoad ''no file'')
          \<and> HasError p' = Some (ErrLoad ''no file''))"
proof -
  have h1: "reachable \<lparr>state = PROJECT_STATE_ERROR, currentError = Some (ErrLoad ''no file'')\<rparr>"
    by (rule reachable_failed_load)
  have h2: "state \<lparr>state = PROJECT_STATE_ERROR, currentError = Some (ErrLoad ''no file'')\<rparr>
       = PROJECT_STATE_ERROR"
    by simp
  have h3: "state \<lparr>state = PROJECT_STATE_LOADING, currentError = None\<rparr> = PROJECT_STATE_LOADING"
    by simp
  from h1 h2 h3
    error_accessors [of "\<lparr>state = PROJECT_STATE_ERROR,
        currentError = Some (ErrLoad ''no file'')\<rparr>" None "ErrLoad ''no file''"]
    error_accessors [of "\<lparr>state = PROJECT_STATE_LOADING, currentError = None\<rparr>"
        None "ErrLoad ''no file''"]
  show ?thesis by blast
qed

text \<open>
  The claim as stated fails for \<open>GetCurrentError\<close>: in the Unloaded state of a new
  manager it returns no error, not \<open>ErrProjectNotLoaded\<close>; and in the Loaded state
  reached by a reload after a failed load it still returns the old error.
\<close>

theorem GetCurrentError_counterexample:
  "state NewProjectManager = PROJECT_STATE_UNLOADED
   \<and> GetCurrentError NewProjectManager = None
   \<and> GetCurrentError NewProjectManager \<noteq> Some ErrProjectNotLoaded
   \<and> HasError NewProjectManager = Some ErrProjectNotLoaded
   \<and> Load (Some (ErrLoad ''no file'')) NewProjectManager
       = Inr \<lparr>state = PROJECT_STATE_ERROR, currentError = Some (ErrLoad ''no file'')\<rparr>
   \<and> ReloadProject None \<lparr>state = PROJECT_STATE_ERROR, currentError = Some (ErrLoad ''no file'')\<rparr>
       = Inr (None, \<lparr>state = PROJECT_STATE_LOADED, currentError = Some (ErrLoad ''no file'')\<rparr>)
   \<and> GetCurrentError \<lparr>state = PROJECT_STATE_LOADED, currentError = Some (ErrLoad ''no file'')\<rparr>
       = Some (ErrLoad ''no file'')
   \<and> HasError \<lparr>state = PROJECT_STATE_LOADED, currentError = Some (ErrLoad ''no file'')\<rparr> = None"
  by (simp add: pm_eval)

subsection \<open>The user access level\<close>

text \<open>
  C10. The user access level of a variable node never has a bit that the access level of
  the node lacks. Without a session in the context it is 0. With a session it is the
  access level with the bit CurrentRead cleared unless a role of the user is granted
  Read, CurrentWrite cleared unless one is granted Write, and HistoryRead cleared unless
  one is granted ReadHistory; no other bit changes.
\<close>

theorem UserAccessLevel_within_AccessLevel:
  "UserAccessLevel K ctx n AND NOT (AccessLevel n) = 0
   \<and> UserAccessLevel K ctx n OR AccessLevel n = AccessLevel n
   \<and> (SessionKey ctx = None \<longrightarrow> UserAccessLevel K ctx n = 0)
   \<and> (\<forall>session. SessionKey ctx = Some session \<longrightarrow>
        UserAccessLevel K ctx n =
          AccessLevel n
            AND NOT (if granted (UserRoles session)
                          (case RolePermissions n of None \<Rightarrow> Server_RolePermissions session
                           | Some rps \<Rightarrow> rps) (PermissionTypeRead K)
                     then 0 else AccessLevelsCurrentRead K)
            AND NOT (if granted (UserRoles session)
                          (case RolePermissions n of None \<Rightarrow> Server_RolePermissions session
                           | Some rps \<Rightarrow> rps) (PermissionTypeWrite K)
                     then 0 else AccessLevelsCurrentWrite K)
            AND NOT (if granted (UserRoles session)
                          (case RolePermissions n of None \<Rightarrow> Server_RolePermissions session
                           | Some rps \<Rightarrow> rps) (PermissionTypeReadHistory K)
                     then 0 else AccessLevelsHistoryRead K))"
proof -
  have form: "UserAccessLevel K ctx n =
          AccessLevel n
            AND NOT (if granted (UserRoles session)
                          (case RolePermissions n of None \<Rightarrow> Server_RolePermissions session
                           | Some rps \<Rightarrow> rps) (PermissionTypeRead K)
                     then 0 else AccessLevelsCurrentRead K)
            AND NOT (if granted (UserRoles session)
                          (case RolePermissions n of None \<Rightarrow> Server_RolePermissions session
                           | Some rps \<Rightarrow> rps) (PermissionTypeWrite K)
                     then 0 else AccessLevelsCurrentWrite K)
            AND NOT (if granted (UserRoles session)
                          (case RolePermissions n of None \<Rightarrow> Server_RolePermissions session
                           | Some rps \<Rightarrow> rps) (PermissionTypeReadHistory K)
                     then 0 else AccessLevelsHistoryRead K)"
    if "SessionKey ctx = Some session" for session
    using that by (simp add: UserAccessLevel_def Let_def and.assoc)
  have none: "UserAccessLevel K ctx n = 0" if "SessionKey ctx = None"
    using that by (simp add: UserAccessLevel_def)
  have sub: "UserAccessLevel K ctx n AND NOT (AccessLevel n) = 0"
  proof (cases "SessionKey ctx")
    case None
    then show ?thesis by (simp add: none)
  next
    case (Some session)
    have "(a AND NOT x AND NOT y AND NOT z) AND NOT a = 0" for a x y z :: byte
      by (simp add: bit_eq_iff bit_simps)
    with form [OF Some] show ?thesis by simp
  qed
  have "u OR a = a" if "u AND NOT a = 0" for u a :: byte
    using that by (auto simp: bit_eq_iff bit_simps)
  with sub have or: "UserAccessLevel K ctx n OR AccessLevel n = AccessLevel n" by blast
  from sub or none form show ?thesis by blast
qed

text \<open>
  A context without a session, and a user whose role is granted Browse and Read, on a
  node with the access level CurrentRead, CurrentWrite and HistoryRead.
\<close>

theorem UserAccessLevel_within_AccessLevel_witness:
  "SessionKey no_session_ctx = None
   \<and> UserAccessLevel opcua_decls no_session_ctx
         (demo_variable VNil (NodeIDNumeric 0 6) (-1) 7) = 0
   \<and> SessionKey (demo_ctx 33)
       = Some \<lparr>UserRoles = [demo_role],
               Server_RolePermissions = [\<lparr>RoleID = demo_role, Permissions = 33\<rparr>]\<rparr>
   \<and> UserAccessLevel opcua_decls (demo_ctx 33) (demo_variable VNil (NodeIDNumeric 0 6) (-1) 7) = 1"
proof -
  have h1: "SessionKey no_session_ctx = None"
    by (simp add: no_session_ctx_def)
  have h2: "SessionKey (demo_ctx 33)
       = Some \<lparr>UserRoles = [demo_role],
               Server_RolePermissions = [\<lparr>RoleID = demo_role, Permissions = 33\<rparr>]\<rparr>"
    by (simp add: demo_ctx_def)
  have g: "granted [demo_role] [\<lparr>RoleID = demo_role, Permissions = 33\<rparr>] (PermissionTypeRead opcua_decls)
         \<and> \<not> granted [demo_role] [\<lparr>RoleID = demo_role, Permissions = 33\<rparr>] (PermissionTypeWrite opcua_decls)
         \<and> \<not> granted [demo_role] [\<lparr>RoleID = demo_role, Permissions = 33\<rparr>]
               (PermissionTypeReadHistory opcua_decls)"
    by (simp add: granted_def opcua_decls_def)
  have a: "UserAccessLevel opcua_decls no_session_ctx
         (demo_variable VNil (NodeIDNumeric 0 6) (-1) 7) = 0"
    using UserAccessLevel_within_AccessLevel
      [of opcua_decls no_session_ctx "demo_variable VNil (NodeIDNumeric 0 6) (-1) 7"] h1
    by blast
  have "UserAccessLevel opcua_decls (demo_ctx 33) (demo_variable VNil (NodeIDNumeric 0 6) (-1) 7)
        = 7 AND NOT 0 AND NOT 2 AND NOT 4"
    using UserAccessLevel_within_AccessLevel
      [of opcua_decls "demo_ctx 33" "demo_variable VNil (NodeIDNumeric 0 6) (-1) 7"] h2 g
    by (simp add: demo_variable_def opcua_decls_def)
  then have b: "UserAccessLevel opcua_decls (demo_ctx 33)
        (demo_variable VNil (NodeIDNumeric 0 6) (-1) 7) = 1"
    by simp
  from h1 h2 a b show ?thesis by blast
qed

subsection \<open>Reading the Value attribute\<close>

text \<open>
  C3. For a read of the Value attribute, with an empty data encoding, that resolves to a
  variable node the user may browse: the status is BadNotReadable when the access level
  of the node lacks CurrentRead; otherwise BadUserAccessDenied when the user access level
  lacks it; otherwise the result is that of the \<open>ReadValueHandler\<close> of the node, if
  installed, and else \<open>readRange\<close> of the value of the node and the index range. A node
  with the access level 0 gives BadNotReadable.
\<close>

theorem readValue_Value_access:
  assumes "rv_DataEncoding_Name rv = []"
    and "rv_AttributeID rv = AttributeIDValue K"
    and "FindNode srv (rv_NodeID rv) = Some (VariableNodeOf n1)"
    and "IsUserPermitted K (GetUserRolePermissions ctx n1) (PermissionTypeBrowse K)"
  shows "readValue K srv ctx now rv =
           Some (if AccessLevel n1 AND AccessLevelsCurrentRead K = 0
                 then NewDataValue VNil BadNotReadable 0 0 now 0
                 else if UserAccessLevel K ctx n1 AND AccessLevelsCurrentRead K = 0
                 then NewDataValue VNil BadUserAccessDenied 0 0 now 0
                 else (case ReadValueHandler n1 of
                         Some f \<Rightarrow> f ctx rv
                       | None \<Rightarrow> readRange (NodeValue n1) (rv_IndexRange rv)))
         \<and> (AccessLevel n1 = 0 \<longrightarrow>
              (\<exists>d. readValue K srv ctx now rv = Some d \<and> StatusCode d = BadNotReadable))"
proof -
  have main: "readValue K srv ctx now rv =
           Some (if AccessLevel n1 AND AccessLevelsCurrentRead K = 0
                 then NewDataValue VNil BadNotReadable 0 0 now 0
                 else if UserAccessLevel K ctx n1 AND AccessLevelsCurrentRead K = 0
                 then NewDataValue VNil BadUserAccessDenied 0 0 now 0
                 else (case ReadValueHandler n1 of
                         Some f \<Rightarrow> f ctx rv
                       | None \<Rightarrow> readRange (NodeValue n1) (rv_IndexRange rv)))"
    using assms by (simp add: readValue_def split: option.splits)
  have "\<exists>d. readValue K srv ctx now rv = Some d \<and> StatusCode d = BadNotReadable"
    if "AccessLevel n1 = 0"
    using that main by (simp add: NewDataValue_def)
  with main show ?thesis by blast
qed

text \<open>
  The node \<open>ns=2;s=Demo\<close> with the access level 0, read by a user whose role is
  granted only Browse.
\<close>

theorem readValue_Value_access_witness:
  "rv_DataEncoding_Name \<lparr>rv_NodeID = NodeIDString 2 ''Demo'', rv_AttributeID = 13,
        rv_IndexRange = [], rv_DataEncoding_Name = []\<rparr> = []
   \<and> rv_AttributeID \<lparr>rv_NodeID = NodeIDString 2 ''Demo'', rv_AttributeID = 13,
        rv_IndexRange = [], rv_DataEncoding_Name = []\<rparr> = AttributeIDValue opcua_decls
   \<and> FindNode (demo_server (demo_variable (VScalar Gint32 5) (NodeIDNumeric 0 6) (-1) 0))
        (rv_NodeID \<lparr>rv_NodeID = NodeIDString 2 ''Demo'', rv_AttributeID = 13,
           rv_IndexRange = [], rv_DataEncoding_Name = []\<rparr>)
       = Some (VariableNodeOf (demo_variable (VScalar Gint32 5) (NodeIDNumeric 0 6) (-1) 0))
   \<and> IsUserPermitted opcua_decls
        (GetUserRolePermissions (demo_ctx 1)
           (demo_variable (VScalar Gint32 5) (NodeIDNumeric 0 6) (-1) 0))
        (PermissionTypeBrowse opcua_decls)
   \<and> AccessLevel (demo_variable (VScalar Gint32 5) (NodeIDNumeric 0 6) (-1) 0) = 0
   \<and> (\<exists>d. readValue opcua_decls
              (demo_server (demo_variable (VScalar Gint32 5) (NodeIDNumeric 0 6) (-1) 0))
              (demo_ctx 1) 9
              \<lparr>rv_NodeID = NodeIDString 2 ''Demo'', rv_AttributeID = 13,
               rv_IndexRange = [], rv_DataEncoding_Name = []\<rparr> = Some d
          \<and> StatusCode d = BadNotReadable)"
proof -
  let ?rv = "\<lparr>rv_NodeID = NodeIDString 2 ''Demo'', rv_AttributeID = 13,
        rv_IndexRange = [], rv_DataEncoding_Name = []\<rparr>"
  let ?n = "demo_variable (VScalar Gint32 5) (NodeIDNumeric 0 6) (-1) 0"
  have h1: "rv_DataEncoding_Name ?rv = []" by simp
  have h2: "rv_AttributeID ?rv = AttributeIDValue opcua_decls" by (simp add: opcua_decls_def)
  have h3: "FindNode (demo_server ?n) (rv_NodeID ?rv) = Some (VariableNodeOf ?n)"
    by (simp add: demo_server_def)
  have h4: "IsUserPermitted opcua_decls (GetUserRolePermissions (demo_ctx 1) ?n)
        (PermissionTypeBrowse opcua_decls)"
    by (simp add: demo_eval access_eval)
  have h5: "AccessLevel ?n = 0" by (simp add: demo_variable_def)
  from h1 h2 h3 h4 h5 readValue_Value_access [OF h1 h2 h3 h4, of 9]
  show ?thesis by blast
qed

subsection \<open>Deadband filters of monitored items\<close>

lemma deadbandAllowed_iff:
  "deadbandAllowed d \<longleftrightarrow>
     d \<in> {VariantTypeSByte, VariantTypeByte, VariantTypeInt16, VariantTypeInt32,
          VariantTypeInt64, VariantTypeUInt16, VariantTypeUInt32, VariantTypeUInt64,
          VariantTypeFloat, VariantTypeDouble}"
  by (cases d) (simp_all add: deadbandAllowed_def)

text \<open>
  C6 (amended). For an item on the Value attribute of a variable node with a
  DataChangeFilter whose deadband type is not None: when the destination variant type of
  the variable is not one of SByte, Byte, Int16, Int32, Int64, UInt16, UInt32, UInt64,
  Float and Double, no item is created, and the status of the result is BadNotReadable
  when the access level of the node lacks CurrentRead, else BadUserAccessDenied when the
  access level of the user lacks CurrentRead, else the status of \<open>validateIndexRange\<close>
  when that is not Good, and BadFilterNotAllowed otherwise; and an item is created only
  for one of these ten types.
\<close>

theorem deadband_filter_numeric_only:
  assumes node: "FindNode srv (rv_NodeID (ItemToMonitor item)) = Some (VariableNodeOf n2)"
    and attr: "rv_AttributeID (ItemToMonitor item) = AttributeIDValue K"
    and filter: "Filter item = DataChangeFilterOf dcf"
    and deadband: "DeadbandType dcf \<noteq> DeadbandTypeNone K"
  shows "(FindVariantType srv (DataType n2)
            \<notin> {VariantTypeSByte, VariantTypeByte, VariantTypeInt16, VariantTypeInt32,
                VariantTypeInt64, VariantTypeUInt16, VariantTypeUInt32, VariantTypeUInt64,
                VariantTypeFloat, VariantTypeDouble} \<longrightarrow>
           createMonitoredItem K srv ctx newItem items item
             = Some (if AccessLevel n2 AND AccessLevelsCurrentRead K = 0 then BadNotReadable
                     else if UserAccessLevel K ctx n2 AND AccessLevelsCurrentRead K = 0
                       then BadUserAccessDenied
                     else if validateIndexRange K srv (rv_IndexRange (ItemToMonitor item))
                               (DataType n2) (ValueRank n2) \<noteq> Good
                       then validateIndexRange K srv (rv_IndexRange (ItemToMonitor item))
                               (DataType n2) (ValueRank n2)
                     else BadFilterNotAllowed, items)
           \<and> (\<exists>st. createMonitoredItem K srv ctx newItem items item = Some (st, items)
                 \<and> st \<noteq> Good)
           \<and> (AccessLevel n2 AND AccessLevelsCurrentRead K \<noteq> 0
                \<and> UserAccessLevel K ctx n2 AND AccessLevelsCurrentRead K \<noteq> 0
                \<and> validateIndexRange K srv (rv_IndexRange (ItemToMonitor item))
                      (DataType n2) (ValueRank n2) = Good \<longrightarrow>
               createMonitoredItem K srv ctx newItem items item
                 = Some (BadFilterNotAllowed, items)))
         \<and> (\<forall>items'. createMonitoredItem K srv ctx newItem items item = Some (Good, items') \<longrightarrow>
               FindVariantType srv (DataType n2)
                 \<in> {VariantTypeSByte, VariantTypeByte, VariantTypeInt16, VariantTypeInt32,
                     VariantTypeInt64, VariantTypeUInt16, VariantTypeUInt32, VariantTypeUInt64,
                     VariantTypeFloat, VariantTypeDouble}
               \<and> items' = items @ [newItem (VariableNodeOf n2) item])"
proof -
  let ?numeric = "{VariantTypeSByte, VariantTypeByte, VariantTypeInt16, VariantTypeInt32,
                VariantTypeInt64, VariantTypeUInt16, VariantTypeUInt32, VariantTypeUInt64,
                VariantTypeFloat, VariantTypeDouble}"
  let ?d = "FindVariantType srv (DataType n2)"
  let ?vir = "validateIndexRange K srv (rv_IndexRange (ItemToMonitor item))
                 (DataType n2) (ValueRank n2)"
  have valid: "Node_IsAttributeIDValid K (VariableNodeOf n2) (AttributeIDValue K)"
    by (simp add: VariableNode_IsAttributeIDValid_def)
  have unfold: "createMonitoredItem K srv ctx newItem items item =
      (if AccessLevel n2 AND AccessLevelsCurrentRead K = 0 then Some (BadNotReadable, items)
       else if UserAccessLevel K ctx n2 AND AccessLevelsCurrentRead K = 0
         then Some (BadUserAccessDenied, items)
       else if ?vir \<noteq> Good then Some (?vir, items)
       else if \<not> deadbandAllowed ?d then Some (BadFilterNotAllowed, items)
       else Some (Good, items @ [newItem (VariableNodeOf n2) item]))"
    using node attr filter deadband valid
    by (simp add: createMonitoredItem_def Let_def)
  have s: "createMonitoredItem K srv ctx newItem items item
             = Some (if AccessLevel n2 AND AccessLevelsCurrentRead K = 0 then BadNotReadable
                     else if UserAccessLevel K ctx n2 AND AccessLevelsCurrentRead K = 0
                       then BadUserAccessDenied
                     else if ?vir \<noteq> Good then ?vir
                     else BadFilterNotAllowed, items)"
    if "?d \<notin> ?numeric"
    using that unfold deadbandAllowed_iff [of ?d] by auto
  have a: "\<exists>st. createMonitoredItem K srv ctx newItem items item = Some (st, items) \<and> st \<noteq> Good"
    if "?d \<notin> ?numeric"
    using that unfold deadbandAllowed_iff [of ?d] by auto
  have b: "createMonitoredItem K srv ctx newItem items item = Some (BadFilterNotAllowed, items)"
    if "?d \<notin> ?numeric" "AccessLevel n2 AND AccessLevelsCurrentRead K \<noteq> 0"
      "UserAccessLevel K ctx n2 AND AccessLevelsCurrentRead K \<noteq> 0" "?vir = Good"
    using that unfold deadbandAllowed_iff [of ?d] by auto
  have c: "?d \<in> ?numeric \<and> items' = items @ [newItem (VariableNodeOf n2) item]"
    if "createMonitoredItem K srv ctx newItem items item = Some (Good, items')" for items'
    using that unfold deadbandAllowed_iff [of ?d] by (auto split: if_splits)
  from s a b c show ?thesis by blast
qed

text \<open>
  A String variable and an Int32 variable, readable by the user, each with a filter of
  deadband type 1: the first request is refused with BadFilterNotAllowed, the second
  creates the item.
\<close>

theorem deadband_filter_numeric_only_witness:
  "FindNode (demo_server (demo_variable (VString [104, 105]) (NodeIDNumeric 0 12) (-1) 1))
        (rv_NodeID (ItemToMonitor
           \<lparr>ItemToMonitor = \<lparr>rv_NodeID = NodeIDString 2 ''Demo'', rv_AttributeID = 13,
                               rv_IndexRange = [], rv_DataEncoding_Name = []\<rparr>,
            MonitoringMode = 2,
            Filter = DataChangeFilterOf \<lparr>Trigger = 1, DeadbandType = 1, DeadbandValue = 5\<rparr>\<rparr>))
     = Some (VariableNodeOf (demo_variable (VString [104, 105]) (NodeIDNumeric 0 12) (-1) 1))
   \<and> DeadbandType \<lparr>Trigger = 1, DeadbandType = 1, DeadbandValue = 5\<rparr>
       \<noteq> DeadbandTypeNone opcua_decls
   \<and> FindVariantType (demo_server (demo_variable (VString [104, 105]) (NodeIDNumeric 0 12) (-1) 1))
        (DataType (demo_variable (VString [104, 105]) (NodeIDNumeric 0 12) (-1) 1))
       = VariantTypeString
   \<and> AccessLevel (demo_variable (VString [104, 105]) (NodeIDNumeric 0 12) (-1) 1)
         AND AccessLevelsCurrentRead opcua_decls \<noteq> 0
   \<and> UserAccessLevel opcua_decls (demo_ctx 33)
         (demo_variable (VString [104, 105]) (NodeIDNumeric 0 12) (-1) 1)
         AND AccessLevelsCurrentRead opcua_decls \<noteq> 0
   \<and> createMonitoredItem opcua_decls
        (demo_server (demo_variable (VString [104, 105]) (NodeIDNumeric 0 12) (-1) 1))
        (demo_ctx 33) Pair []
        \<lparr>ItemToMonitor = \<lparr>rv_NodeID = NodeIDString 2 ''Demo'', rv_AttributeID = 13,
                            rv_IndexRange = [], rv_DataEncoding_Name = []\<rparr>,
         MonitoringMode = 2,
         Filter = DataChangeFilterOf \<lparr>Trigger = 1, DeadbandType = 1, DeadbandValue = 5\<rparr>\<rparr>
       = Some (BadFilterNotAllowed, [])
   \<and> createMonitoredItem opcua_decls
        (demo_server (demo_variable (VScalar Gint32 5) (NodeIDNumeric 0 6) (-1) 1))
        (demo_ctx 33) Pair []
        \<lparr>ItemToMonitor = \<lparr>rv_NodeID = NodeIDString 2 ''Demo'', rv_AttributeID = 13,
                            rv_IndexRange = [], rv_DataEncoding_Name = []\<rparr>,
         MonitoringMode = 2,
         Filter = DataChangeFilterOf \<lparr>Trigger = 1, DeadbandType = 1, DeadbandValue = 5\<rparr>\<rparr>
       = Some (Good,
           [(VariableNodeOf (demo_variable (VScalar Gint32 5) (NodeIDNumeric 0 6) (-1) 1),
             \<lparr>ItemToMonitor = \<lparr>rv_NodeID = NodeIDString 2 ''Demo'', rv_AttributeID = 13,
                                 rv_IndexRange = [], rv_DataEncoding_Name = []\<rparr>,
              MonitoringMode = 2,
              Filter = DataChangeFilterOf \<lparr>Trigger = 1, DeadbandType = 1, DeadbandValue = 5\<rparr>\<rparr>)])
   \<and> FindVariantType (demo_server (demo_variable (VScalar Gint32 5) (NodeIDNumeric 0 6) (-1) 1))
        (DataType (demo_variable (VScalar Gint32 5) (NodeIDNumeric 0 6) (-1) 1))
       \<in> {VariantTypeSByte, VariantTypeByte, VariantTypeInt16, VariantTypeInt32,
           VariantTypeInt64, VariantTypeUInt16, VariantTypeUInt32, VariantTypeUInt64,
           VariantTypeFloat, VariantTypeDouble}"
proof -
  let ?dcf = "\<lparr>Trigger = 1, DeadbandType = 1, DeadbandValue = 5\<rparr> :: DataChangeFilter"
  let ?item = "\<lparr>ItemToMonitor = \<lparr>rv_NodeID = NodeIDString 2 ''Demo'', rv_AttributeID = 13,
                            rv_IndexRange = [], rv_DataEncoding_Name = []\<rparr>,
         MonitoringMode = 2, Filter = DataChangeFilterOf ?dcf\<rparr>"
  let ?s = "demo_variable (VString [104, 105]) (NodeIDNumeric 0 12) (-1) 1"
  let ?i = "demo_variable (VScalar Gint32 5) (NodeIDNumeric 0 6) (-1) 1"
  let ?K = opcua_decls
  have attr: "rv_AttributeID (ItemToMonitor ?item) = AttributeIDValue ?K"
    by (simp add: opcua_decls_def)
  have filter: "Filter ?item = DataChangeFilterOf ?dcf" by simp
  have deadband: "DeadbandType ?dcf \<noteq> DeadbandTypeNone ?K" by (simp add: opcua_decls_def)
  have node_s: "FindNode (demo_server ?s) (rv_NodeID (ItemToMonitor ?item)) = Some (VariableNodeOf ?s)"
    by (simp add: demo_server_def)
  have node_i: "FindNode (demo_server ?i) (rv_NodeID (ItemToMonitor ?item)) = Some (VariableNodeOf ?i)"
    by (simp add: demo_server_def)
  have type_s: "FindVariantType (demo_server ?s) (DataType ?s) = VariantTypeString"
    by (simp add: demo_server_def demo_variable_def)
  have type_i: "FindVariantType (demo_server ?i) (DataType ?i) = VariantTypeInt32"
    by (simp add: demo_server_def demo_variable_def)
  have read_s: "AccessLevel ?s AND AccessLevelsCurrentRead ?K \<noteq> 0"
    by (simp add: demo_variable_def opcua_decls_def)
  have user_s: "UserAccessLevel ?K (demo_ctx 33) ?s AND AccessLevelsCurrentRead ?K \<noteq> 0"
    by (simp add: demo_eval access_eval)
  have range_s: "validateIndexRange ?K (demo_server ?s) (rv_IndexRange (ItemToMonitor ?item))
       (DataType ?s) (ValueRank ?s) = Good"
    by (simp add: validateIndexRange_def)
  have made: "createMonitoredItem ?K (demo_server ?i) (demo_ctx 33) Pair [] ?item
       = Some (Good, [(VariableNodeOf ?i, ?item)])"
    by (simp add: createMonitoredItem_def VariableNode_IsAttributeIDValid_def
        validateIndexRange_def deadbandAllowed_def demo_eval access_eval)
  note s = deadband_filter_numeric_only [OF node_s attr filter deadband, of "demo_ctx 33" Pair "[]"]
  note i = deadband_filter_numeric_only [OF node_i attr filter deadband, of "demo_ctx 33" Pair "[]"]
  from type_s have nonnum: "FindVariantType (demo_server ?s) (DataType ?s)
            \<notin> {VariantTypeSByte, VariantTypeByte, VariantTypeInt16, VariantTypeInt32,
                VariantTypeInt64, VariantTypeUInt16, VariantTypeUInt32, VariantTypeUInt64,
                VariantTypeFloat, VariantTypeDouble}"
    by simp
  from s nonnum read_s user_s range_s
  have r1: "createMonitoredItem ?K (demo_server ?s) (demo_ctx 33) Pair [] ?item
       = Some (BadFilterNotAllowed, [])"
    by blast
  from i made
  have r2: "FindVariantType (demo_server ?i) (DataType ?i)
       \<in> {VariantTypeSByte, VariantTypeByte, VariantTypeInt16, VariantTypeInt32,
           VariantTypeInt64, VariantTypeUInt16, VariantTypeUInt32, VariantTypeUInt64,
           VariantTypeFloat, VariantTypeDouble}"
    by blast
  from node_s deadband type_s read_s user_s r1 made r2 show ?thesis by simp
qed

text \<open>
  The claim as stated fails on a String variable that cannot be read: with an access
  level without CurrentRead the request with a deadband filter is refused with
  BadNotReadable, and with a user who lacks the Read permission with
  BadUserAccessDenied, not with BadFilterNotAllowed.
\<close>

theorem deadband_filter_unreadable_counterexample:
  "FindVariantType (demo_server (demo_variable (VString [104, 105]) (NodeIDNumeric 0 12) (-1) 0))
        (DataType (demo_variable (VString [104, 105]) (NodeIDNumeric 0 12) (-1) 0))
       = VariantTypeString
   \<and> createMonitoredItem opcua_decls
        (demo_server (demo_variable (VString [104, 105]) (NodeIDNumeric 0 12) (-1) 0))
        (demo_ctx 33) Pair []
        \<lparr>ItemToMonitor = \<lparr>rv_NodeID = NodeIDString 2 ''Demo'', rv_AttributeID = 13,
                            rv_IndexRange = [], rv_DataEncoding_Name = []\<rparr>,
         MonitoringMode = 2,
         Filter = DataChangeFilterOf \<lparr>Trigger = 1, DeadbandType = 1, DeadbandValue = 5\<rparr>\<rparr>
       = Some (BadNotReadable, [])
   \<and> BadNotReadable \<noteq> BadFilterNotAllowed
   \<and> createMonitoredItem opcua_decls
        (demo_server (demo_variable (VString [104, 105]) (NodeIDNumeric 0 12) (-1) 1))
        (demo_ctx 1) Pair []
        \<lparr>ItemToMonitor = \<lparr>rv_NodeID = NodeIDString 2 ''Demo'', rv_AttributeID = 13,
                            rv_IndexRange = [], rv_DataEncoding_Name = []\<rparr>,
         MonitoringMode = 2,
         Filter = DataChangeFilterOf \<lparr>Trigger = 1, DeadbandType = 1, DeadbandValue = 5\<rparr>\<rparr>
       = Some (BadUserAccessDenied, [])
   \<and> BadUserAccessDenied \<noteq> BadFilterNotAllowed"
  by (simp add: createMonitoredItem_def VariableNode_IsAttributeIDValid_def
      validateIndexRange_def deadbandAllowed_def demo_eval access_eval)

subsection \<open>The type and rank check of a write\<close>








text \<open>
  The empty case \<open>nil\<close> of the switch lets a \<open>nil\<close> value reach \<open>writeRange\<close>. With an
  index range, on a String variable holding \<open>abc\<close>, the type assertion
  \<open>value.Value.(string)\<close> then panics.
\<close>

lemma writeValue_nil_with_index_range_panics:
  "writeValue opcua_decls
     (demo_server (demo_variable (VString [97, 98, 99]) (NodeIDNumeric 0 12) (-1) 3))
     (demo_ctx 65) 7 7 ((demo_write VNil)\<lparr>wv_IndexRange := ''0''\<rparr>)
   = Inl InterfaceConversion"
  by (simp add: writeValue_def writeValue_Value_def checkValue_def convertBytes_def
      writeRange_def rangeBounds_def demo_write_def NewDataValue_def parse_eval demo_eval
      access_eval)

end
